theory Spec2Isabelle
  imports Complex_Main "HOL-Library.Word"
begin

section \<open>Values of the host language\<close>

text \<open>
  The program is a TypeScript module (\<^verbatim>\<open>src/main.ts\<close>) and an earlier render-only
  variant of it. A typed array is a list of its elements: a \<^verbatim>\<open>Uint32Array\<close> holds
  32-bit words, a \<^verbatim>\<open>Float32Array\<close> holds numbers, written here as the reals the
  source's literals denote. Every element takes four bytes.
\<close>

type_synonym u32 = "32 word"

datatype TypedArray = Float32Array "real list" | Uint32Array "u32 list"

fun byteLength :: "TypedArray \<Rightarrow> nat" where
  "byteLength (Float32Array xs) = 4 * length xs"
| "byteLength (Uint32Array xs) = 4 * length xs"

text \<open>
  A number of the host language is an IEEE-754 double. The integers from 0 to \<open>2 ^ 53\<close>
  are doubles and \<open>+ 1\<close> is exact below \<open>2 ^ 53\<close>; \<open>2 ^ 53 + 1\<close> is not a double and
  rounds (ties to even) back to \<open>2 ^ 53\<close>. \<open>js_increment\<close> is \<^verbatim>\<open>x++\<close> on the values
  \<open>0 .. 2 ^ 53\<close>, the only ones a counter that starts at 0 can take.
\<close>

definition MAX_EXACT :: nat where
  "MAX_EXACT = 2 ^ 53"

definition js_increment :: "nat \<Rightarrow> nat" where
  "js_increment x = (if x < MAX_EXACT then x + 1 else x)"

text \<open>
  An abort is an exception that nothing catches. \<open>Error msg\<close> is \<^verbatim>\<open>new Error(msg)\<close>, thrown
  by the program itself with its message. The others are thrown by the platform:
  \<open>TypeError\<close> for a property read on \<^verbatim>\<open>null\<close> and for a count that is no unsigned 32-bit
  number, \<open>Rejected\<close> for the reason of a rejected promise under \<^verbatim>\<open>await\<close>,
  \<open>InvalidStateError\<close> for \<^verbatim>\<open>getCurrentTexture()\<close> on a context that is not configured, and
  \<open>NoBindGroup\<close> for a pass that is given \<^verbatim>\<open>undefined\<close> where it needs a bind group.
\<close>

datatype error = Error string | TypeError | Rejected | InvalidStateError | NoBindGroup

section \<open>The GPU interface\<close>

datatype GPUBufferUsage = VERTEX | COPY_DST | UNIFORM | STORAGE

datatype GPUShaderStage = VERTEX_STAGE | FRAGMENT_STAGE | COMPUTE_STAGE

datatype GPUBufferBindingType = uniform_binding | read_only_storage | storage

datatype GPUTextureFormat = bgra8unorm | rgba8unorm

text \<open>
  Every object the device creates is a new object; \<open>buffer_id\<close> is its identity, taken
  from a counter of the device. Two buffer handles denote the same buffer when they are
  the same object.
\<close>

record GPUBuffer =
  buffer_id :: nat
  buffer_label :: string
  buffer_size :: nat
  buffer_usage :: "GPUBufferUsage set"

record layout_entry =
  le_binding :: nat
  le_visibility :: "GPUShaderStage set"
  le_type :: GPUBufferBindingType

record GPUBindGroupLayout =
  bgl_id :: nat
  bgl_label :: string
  bgl_entries :: "layout_entry list"

record GPUShaderModule =
  sm_id :: nat
  sm_label :: string
  sm_code :: string

datatype pipeline_layout = auto_layout | explicit_layout string "GPUBindGroupLayout list"

record GPURenderPipeline =
  rp_id :: nat
  rp_label :: string
  rp_layout :: pipeline_layout
  rp_module :: GPUShaderModule
  rp_vertex_entry :: string
  rp_array_stride :: nat
  rp_fragment_entry :: string
  rp_target :: GPUTextureFormat

record GPUComputePipeline =
  cp_id :: nat
  cp_label :: string
  cp_layout :: pipeline_layout
  cp_module :: GPUShaderModule
  cp_entry :: string

text \<open>
  The layout of a bind group is either a layout object made by the program or the one
  a pipeline with layout \<^verbatim>\<open>"auto"\<close> derives from its shader
  (\<^verbatim>\<open>getBindGroupLayout(i)\<close>).
\<close>

datatype layout_ref = made_layout GPUBindGroupLayout | pipeline_layout_of nat nat

record GPUBindGroup =
  bg_id :: nat
  bg_label :: string
  bg_layout :: layout_ref
  bg_entries :: "(nat \<times> GPUBuffer) list"

datatype compute_command =
    CSetPipeline GPUComputePipeline
  | CSetBindGroup nat GPUBindGroup
  | DispatchWorkgroups nat nat

datatype render_command =
    RSetPipeline GPURenderPipeline
  | RSetBindGroup nat GPUBindGroup
  | SetVertexBuffer nat GPUBuffer
  | Draw nat nat

text \<open>
  A render pass clears its one colour attachment (the current texture of the canvas) to
  \<open>clearValue\<close>, given as (r, g, b, a), and stores the result.
\<close>

datatype pass =
    ComputePass "compute_command list"
  | RenderPass "real \<times> real \<times> real \<times> real" "render_command list"

type_synonym command_buffer = "pass list"

text \<open>
  What the host does to the device queue, oldest first: \<^verbatim>\<open>writeBuffer(buffer, offset,
  data)\<close> and \<^verbatim>\<open>submit([commands])\<close>. The program calls nothing else on the queue and
  never maps a buffer.
\<close>

datatype queue_op = WriteBuffer GPUBuffer nat TypedArray | Submit "command_buffer list"

record GPUDevice =
  next_id :: nat
  queue :: "queue_op list"

definition createBuffer ::
  "GPUDevice \<Rightarrow> string \<Rightarrow> nat \<Rightarrow> GPUBufferUsage set \<Rightarrow> GPUBuffer \<times> GPUDevice" where
  "createBuffer d l s u =
     (\<lparr>buffer_id = next_id d, buffer_label = l, buffer_size = s, buffer_usage = u\<rparr>,
      d\<lparr>next_id := next_id d + 1\<rparr>)"

definition createShaderModule ::
  "GPUDevice \<Rightarrow> string \<Rightarrow> string \<Rightarrow> GPUShaderModule \<times> GPUDevice" where
  "createShaderModule d l c =
     (\<lparr>sm_id = next_id d, sm_label = l, sm_code = c\<rparr>, d\<lparr>next_id := next_id d + 1\<rparr>)"

definition createBindGroupLayout ::
  "GPUDevice \<Rightarrow> string \<Rightarrow> layout_entry list \<Rightarrow> GPUBindGroupLayout \<times> GPUDevice" where
  "createBindGroupLayout d l es =
     (\<lparr>bgl_id = next_id d, bgl_label = l, bgl_entries = es\<rparr>, d\<lparr>next_id := next_id d + 1\<rparr>)"

definition createBindGroup ::
  "GPUDevice \<Rightarrow> string \<Rightarrow> layout_ref \<Rightarrow> (nat \<times> GPUBuffer) list \<Rightarrow> GPUBindGroup \<times> GPUDevice" where
  "createBindGroup d l lay es =
     (\<lparr>bg_id = next_id d, bg_label = l, bg_layout = lay, bg_entries = es\<rparr>,
      d\<lparr>next_id := next_id d + 1\<rparr>)"

definition createPipelineLayout ::
  "GPUDevice \<Rightarrow> string \<Rightarrow> GPUBindGroupLayout list \<Rightarrow> pipeline_layout \<times> GPUDevice" where
  "createPipelineLayout d l ls = (explicit_layout l ls, d\<lparr>next_id := next_id d + 1\<rparr>)"

definition createRenderPipeline ::
  "GPUDevice \<Rightarrow> string \<Rightarrow> pipeline_layout \<Rightarrow> GPUShaderModule \<Rightarrow> string \<Rightarrow> nat \<Rightarrow> string \<Rightarrow>
   GPUTextureFormat \<Rightarrow> GPURenderPipeline \<times> GPUDevice" where
  "createRenderPipeline d l lay m ve stride fe fmt =
     (\<lparr>rp_id = next_id d, rp_label = l, rp_layout = lay, rp_module = m, rp_vertex_entry = ve,
       rp_array_stride = stride, rp_fragment_entry = fe, rp_target = fmt\<rparr>,
      d\<lparr>next_id := next_id d + 1\<rparr>)"

definition createComputePipeline ::
  "GPUDevice \<Rightarrow> string \<Rightarrow> pipeline_layout \<Rightarrow> GPUShaderModule \<Rightarrow> string \<Rightarrow>
   GPUComputePipeline \<times> GPUDevice" where
  "createComputePipeline d l lay m e =
     (\<lparr>cp_id = next_id d, cp_label = l, cp_layout = lay, cp_module = m, cp_entry = e\<rparr>,
      d\<lparr>next_id := next_id d + 1\<rparr>)"

definition writeBuffer :: "GPUDevice \<Rightarrow> GPUBuffer \<Rightarrow> nat \<Rightarrow> TypedArray \<Rightarrow> GPUDevice" where
  "writeBuffer d b off a = d\<lparr>queue := queue d @ [WriteBuffer b off a]\<rparr>"

definition submit :: "GPUDevice \<Rightarrow> command_buffer list \<Rightarrow> GPUDevice" where
  "submit d cbs = d\<lparr>queue := queue d @ [Submit cbs]\<rparr>"

section \<open>Start-up: device and surface\<close>

text \<open>
  The environment is what the page and the browser answer: what
  \<^verbatim>\<open>document.querySelector("canvas")\<close> returns (the source asserts with \<^verbatim>\<open>!\<close> that it is
  an element, which checks nothing when the program runs), what
  \<^verbatim>\<open>canvas.getContext("webgpu")\<close> returns, whether \<^verbatim>\<open>navigator.gpu\<close> exists, what
  \<^verbatim>\<open>requestAdapter()\<close> resolves to, whether \<^verbatim>\<open>requestDevice()\<close> resolves or rejects, the
  preferred canvas format, and the two shader sources the module imports. A device
  starts with nothing created and an empty queue; a context starts without a
  configuration.
\<close>

datatype GPUAdapter = GPUAdapter

record GPUCanvasContext =
  configuration :: "GPUTextureFormat option"

record HTMLCanvasElement =
  getContext :: "GPUCanvasContext option"

record GPU =
  requestAdapter :: "GPUAdapter option"
  getPreferredCanvasFormat :: GPUTextureFormat

record environment =
  querySelector_canvas :: "HTMLCanvasElement option"
  navigator_gpu :: "GPU option"
  requestDevice_resolves :: bool
  cellShaderCode :: string
  computeShaderCode :: string

definition requestDevice :: "GPUAdapter \<Rightarrow> GPUDevice" where
  "requestDevice a = \<lparr>next_id = 0, queue = []\<rparr>"

text \<open>
  The requests the program makes to the page and the browser while it starts, recorded
  in the order they are made.
\<close>

datatype platform_call =
    QuerySelector | RequestAdapter | RequestDevice | GetContext
  | GetPreferredCanvasFormat | Configure

text \<open>
  The first lines of both variants of the program, up to \<^verbatim>\<open>context.configure\<close>. The
  result is the list of the requests made and either the exception that ended the
  program or the device, the configured context and the canvas format. With no canvas
  element, \<^verbatim>\<open>canvas.getContext\<close> reads a property of \<^verbatim>\<open>null\<close> and throws before any call
  is made; a rejected \<^verbatim>\<open>requestDevice()\<close> throws at its \<^verbatim>\<open>await\<close>.
\<close>

definition bootstrap ::
  "environment \<Rightarrow>
   platform_call list \<times> (error + (GPUDevice \<times> GPUCanvasContext \<times> GPUTextureFormat))" where
  "bootstrap env =
     (let canvas = querySelector_canvas env;
          calls = [QuerySelector]
      in case navigator_gpu env of
           None \<Rightarrow> (calls, Inl (Error ''WebGPU not supported on this browser.''))
         | Some gpu \<Rightarrow>
             (let calls = calls @ [RequestAdapter]
              in case requestAdapter gpu of
                   None \<Rightarrow> (calls, Inl (Error ''No appropriate GPUAdapter found.''))
                 | Some adapter \<Rightarrow>
                     (let calls = calls @ [RequestDevice]
                      in if \<not> requestDevice_resolves env then (calls, Inl Rejected)
                         else
                           (let dev = requestDevice adapter
                            in case canvas of
                                 None \<Rightarrow> (calls, Inl TypeError)
                               | Some element \<Rightarrow>
                                   (let calls = calls @ [GetContext]
                                    in case getContext element of
                                         None \<Rightarrow>
                                           (calls,
                                            Inl (Error ''Unable to obtain WebGPU context.''))
                                       | Some ctx \<Rightarrow>
                                           (let calls = calls @ [GetPreferredCanvasFormat];
                                                format = getPreferredCanvasFormat gpu;
                                                calls = calls @ [Configure];
                                                ctx = ctx\<lparr>configuration := Some format\<rparr>
                                            in (calls, Inr (dev, ctx, format))))))))"

section \<open>The simulation (\<^verbatim>\<open>src/main.ts\<close>)\<close>

definition GRID_SIZE :: nat where
  "GRID_SIZE = 128"

definition WORKGROUP_SIZE :: nat where
  "WORKGROUP_SIZE = 8"

definition UPDATE_INTERVAL :: nat where
  "UPDATE_INTERVAL = 200"

definition vertices :: "real list" where
  "vertices =
     [-0.8, -0.8,
      0.8, -0.8,
      0.8, 0.8,
      -0.8, -0.8,
      0.8, 0.8,
      -0.8, 0.8]"

subsection \<open>Seeding the cells\<close>

text \<open>
  \<^verbatim>\<open>cellStateArray[i] = Math.random() > 0.6 ? 1 : 0\<close>. The argument is the value
  \<^verbatim>\<open>Math.random()\<close> returned, a double in \<open>[0, 1)\<close>. The literal \<^verbatim>\<open>0.6\<close> is the double
  nearest to \<open>6/10\<close>, which lies just below it with no double in between, so a double
  exceeds the literal exactly when it exceeds \<open>6/10\<close>.
\<close>

definition seed_cell :: "real \<Rightarrow> u32" where
  "seed_cell r = (if r > 0.6 then 1 else 0)"

text \<open>
  The loop \<^verbatim>\<open>for (let i = 0; i < cellStateArray.length; ++i)\<close>; \<open>random i\<close> is what
  the call of \<^verbatim>\<open>Math.random()\<close> in iteration \<open>i\<close> returns.
\<close>

function seed_loop :: "(nat \<Rightarrow> real) \<Rightarrow> nat \<Rightarrow> u32 list \<Rightarrow> u32 list" where
  "seed_loop random i cellStateArray =
     (if i < length cellStateArray
      then seed_loop random (i + 1) (cellStateArray[i := seed_cell (random i)])
      else cellStateArray)"
  by pat_completeness auto
termination
  by (relation "measure (\<lambda>(random, i, a). length a - i)") auto

declare seed_loop.simps [simp del]

subsection \<open>Resources, layouts and pipelines\<close>

text \<open>The module-level bindings that later code refers to.\<close>

record program =
  device :: GPUDevice
  canvasFormat :: GPUTextureFormat
  vertexBuffer :: GPUBuffer
  uniformArray :: "real list"
  uniformBuffer :: GPUBuffer
  cellStateArray :: "u32 list"
  cellStateStorage :: "GPUBuffer list"
  bindGroupLayout :: GPUBindGroupLayout
  bindGroups :: "GPUBindGroup list"
  cellPipeline :: GPURenderPipeline
  simulationPipeline :: GPUComputePipeline
  step :: nat

definition cell_layout_entries :: "layout_entry list" where
  "cell_layout_entries =
     [\<lparr>le_binding = 0, le_visibility = {VERTEX_STAGE, COMPUTE_STAGE, FRAGMENT_STAGE},
       le_type = uniform_binding\<rparr>,
      \<lparr>le_binding = 1, le_visibility = {VERTEX_STAGE, COMPUTE_STAGE},
       le_type = read_only_storage\<rparr>,
      \<lparr>le_binding = 2, le_visibility = {COMPUTE_STAGE}, le_type = storage\<rparr>]"

text \<open>
  Everything \<^verbatim>\<open>main.ts\<close> does after the device and the surface are there and before
  the timer is set, in the order of the source. Nothing in it throws.
\<close>

definition initialise :: "environment \<Rightarrow> GPUDevice \<Rightarrow> GPUTextureFormat \<Rightarrow> (nat \<Rightarrow> real) \<Rightarrow> program" where
  "initialise env dev format random =
     (let device = dev;
          canvasFormat = format;
          (vertexBuffer, device) =
            createBuffer device ''Cell vertices'' (byteLength (Float32Array vertices))
              {VERTEX, COPY_DST};
          uniformArray = [real GRID_SIZE, real GRID_SIZE];
          (uniformBuffer, device) =
            createBuffer device ''Grid Uniforms'' (byteLength (Float32Array uniformArray))
              {UNIFORM, COPY_DST};
          cellStateArray = replicate (GRID_SIZE * GRID_SIZE) (0 :: u32);
          (stateA, device) =
            createBuffer device ''Cell State A'' (byteLength (Uint32Array cellStateArray))
              {STORAGE, COPY_DST};
          (stateB, device) =
            createBuffer device ''Cell State B'' (byteLength (Uint32Array cellStateArray))
              {STORAGE, COPY_DST};
          cellStateStorage = [stateA, stateB];
          cellStateArray = seed_loop random 0 cellStateArray;
          device = writeBuffer device (cellStateStorage ! 0) 0 (Uint32Array cellStateArray);
          device = writeBuffer device vertexBuffer 0 (Float32Array vertices);
          device = writeBuffer device uniformBuffer 0 (Float32Array uniformArray);
          (cellShaderModule, device) =
            createShaderModule device ''Cell shader'' (cellShaderCode env);
          (simulationShaderModule, device) =
            createShaderModule device ''Game of Life simulation shader'' (computeShaderCode env);
          (bindGroupLayout, device) =
            createBindGroupLayout device ''Cell Bind Group Layout'' cell_layout_entries;
          (groupA, device) =
            createBindGroup device ''Cell renderer bind group A'' (made_layout bindGroupLayout)
              [(0, uniformBuffer), (1, cellStateStorage ! 0), (2, cellStateStorage ! 1)];
          (groupB, device) =
            createBindGroup device ''Cell renderer bind group B'' (made_layout bindGroupLayout)
              [(0, uniformBuffer), (1, cellStateStorage ! 1), (2, cellStateStorage ! 0)];
          bindGroups = [groupA, groupB];
          (pipelineLayout, device) =
            createPipelineLayout device ''Cell Pipeline Layout'' [bindGroupLayout];
          (cellPipeline, device) =
            createRenderPipeline device ''Cell pipeline'' pipelineLayout cellShaderModule
              ''vertexMain'' 8 ''fragmentMain'' canvasFormat;
          (simulationPipeline, device) =
            createComputePipeline device ''Simulation pipeline'' pipelineLayout
              simulationShaderModule ''computeMain''
      in \<lparr>device = device, canvasFormat = canvasFormat, vertexBuffer = vertexBuffer,
          uniformArray = uniformArray, uniformBuffer = uniformBuffer,
          cellStateArray = cellStateArray, cellStateStorage = cellStateStorage,
          bindGroupLayout = bindGroupLayout, bindGroups = bindGroups,
          cellPipeline = cellPipeline, simulationPipeline = simulationPipeline,
          step = 0\<rparr>)"

text \<open>
  The module as a whole, up to the moment the timer is set: the requests made, and
  either the exception that ended it or the configured context and the program state.
\<close>

definition main ::
  "environment \<Rightarrow> (nat \<Rightarrow> real) \<Rightarrow>
   platform_call list \<times> (error + (GPUCanvasContext \<times> program))" where
  "main env random =
     (case bootstrap env of
        (calls, Inl e) \<Rightarrow> (calls, Inl e)
      | (calls, Inr (dev, ctx, format)) \<Rightarrow>
          (calls, Inr (ctx, initialise env dev format random)))"

subsection \<open>The frame driver\<close>

text \<open>
  \<^verbatim>\<open>Math.ceil(n / t)\<close>: the quotient of two numbers, rounded up. In the source the
  arguments are the constants \<open>GRID_SIZE\<close> and \<open>WORKGROUP_SIZE\<close>. The quotient is taken
  in the reals: for whole numbers \<open>n\<close> below \<open>2 ^ 53\<close> and \<open>t > 0\<close> the double quotient
  is off by less than \<open>1 / t\<close>, too little to reach or pass the next whole number, so
  rounding it up gives the same. Division by 0 gives \<^verbatim>\<open>Infinity\<close> or \<^verbatim>\<open>NaN\<close> in the
  source and is not a tile size.
\<close>

definition ceil_quotient :: "nat \<Rightarrow> nat \<Rightarrow> nat" where
  "ceil_quotient n t = nat \<lceil>real n / real t\<rceil>"

definition updateGrid :: "program \<Rightarrow> program" where
  "updateGrid p =
     (let computePass =
            [CSetPipeline (simulationPipeline p),
             CSetBindGroup 0 (bindGroups p ! (step p mod 2))];
          workgroupCount = ceil_quotient GRID_SIZE WORKGROUP_SIZE;
          computePass = computePass @ [DispatchWorkgroups workgroupCount workgroupCount];
          encoder = [ComputePass computePass];
          p = p\<lparr>step := js_increment (step p)\<rparr>;
          pass =
            [RSetPipeline (cellPipeline p),
             RSetBindGroup 0 (bindGroups p ! (step p mod 2)),
             SetVertexBuffer 0 (vertexBuffer p),
             Draw (length vertices div 2) (GRID_SIZE * GRID_SIZE)];
          encoder = encoder @ [RenderPass (0, 0, 0.4, 1.0) pass]
      in p\<lparr>device := submit (device p) [encoder]\<rparr>)"

text \<open>
  \<^verbatim>\<open>setInterval(updateGrid, UPDATE_INTERVAL)\<close> calls the driver again and again;
  \<open>frames n p\<close> is the program after the first \<open>n\<close> calls.
\<close>

fun frames :: "nat \<Rightarrow> program \<Rightarrow> program" where
  "frames 0 p = p"
| "frames (Suc n) p = updateGrid (frames n p)"

text \<open>
  \<open>updateGrid\<close> above is a call of the driver in which no call throws. The same lines
  once more, with what can throw written out, in the order of the source: an index
  outside \<^verbatim>\<open>bindGroups\<close> gives \<^verbatim>\<open>undefined\<close>, which is no bind group;
  \<^verbatim>\<open>dispatchWorkgroups\<close> and \<^verbatim>\<open>draw\<close> take unsigned 32-bit counts and throw a
  \<^verbatim>\<open>TypeError\<close> on anything else; \<^verbatim>\<open>getCurrentTexture()\<close> throws on a context without
  a configuration. An exception leaves the program state as it is at the throw (the
  counter already incremented when the render pass throws) and nothing is submitted.
\<close>

definition element_at :: "'a list \<Rightarrow> nat \<Rightarrow> 'a option" where
  "element_at xs i = (if i < length xs then Some (xs ! i) else None)"

definition updateGrid_checked ::
  "GPUCanvasContext \<Rightarrow> program \<Rightarrow> (error \<times> program) + program" where
  "updateGrid_checked ctx p =
     (case element_at (bindGroups p) (step p mod 2) of
        None \<Rightarrow> Inl (NoBindGroup, p)
      | Some computeGroup \<Rightarrow>
          (let computePass =
                 [CSetPipeline (simulationPipeline p), CSetBindGroup 0 computeGroup];
               workgroupCount = ceil_quotient GRID_SIZE WORKGROUP_SIZE
           in if \<not> workgroupCount < 2 ^ 32 then Inl (TypeError, p)
              else
                (let computePass =
                       computePass @ [DispatchWorkgroups workgroupCount workgroupCount];
                     encoder = [ComputePass computePass];
                     p = p\<lparr>step := js_increment (step p)\<rparr>
                 in case configuration ctx of
                      None \<Rightarrow> Inl (InvalidStateError, p)
                    | Some format \<Rightarrow>
                        (case element_at (bindGroups p) (step p mod 2) of
                           None \<Rightarrow> Inl (NoBindGroup, p)
                         | Some renderGroup \<Rightarrow>
                             if \<not> (length vertices div 2 < 2 ^ 32
                                   \<and> GRID_SIZE * GRID_SIZE < 2 ^ 32)
                             then Inl (TypeError, p)
                             else
                               (let pass =
                                      [RSetPipeline (cellPipeline p),
                                       RSetBindGroup 0 renderGroup,
                                       SetVertexBuffer 0 (vertexBuffer p),
                                       Draw (length vertices div 2) (GRID_SIZE * GRID_SIZE)];
                                    encoder = encoder @ [RenderPass (0, 0, 0.4, 1.0) pass]
                                in Inr (p\<lparr>device := submit (device p) [encoder]\<rparr>))))))"

section \<open>The render-only variant\<close>

definition RENDER_ONLY_GRID_SIZE :: nat where
  "RENDER_ONLY_GRID_SIZE = 32"

text \<open>
  The variant has the same start-up checks and the same vertices, makes no cell-state
  buffer, and encodes and submits one render pass once. Its pipeline has layout
  \<^verbatim>\<open>"auto"\<close>, and its one bind group takes the layout from the pipeline.
\<close>

definition render_only_initialise :: "environment \<Rightarrow> GPUDevice \<Rightarrow> GPUTextureFormat \<Rightarrow> GPUDevice" where
  "render_only_initialise env dev format =
     (let device = dev;
          canvasFormat = format;
          (vertexBuffer, device) =
            createBuffer device ''Cell vertices'' (byteLength (Float32Array vertices))
              {VERTEX, COPY_DST};
          uniformArray = [real RENDER_ONLY_GRID_SIZE, real RENDER_ONLY_GRID_SIZE];
          (uniformBuffer, device) =
            createBuffer device ''Grid Uniforms'' (byteLength (Float32Array uniformArray))
              {UNIFORM, COPY_DST};
          device = writeBuffer device vertexBuffer 0 (Float32Array vertices);
          device = writeBuffer device uniformBuffer 0 (Float32Array uniformArray);
          (cellShaderModule, device) =
            createShaderModule device ''Cell shader'' (cellShaderCode env);
          (cellPipeline, device) =
            createRenderPipeline device ''Cell pipeline'' auto_layout cellShaderModule
              ''vertexMain'' 8 ''fragmentMain'' canvasFormat;
          (bindGroup, device) =
            createBindGroup device ''Cell renderer bind group''
              (pipeline_layout_of (rp_id cellPipeline) 0) [(0, uniformBuffer)];
          pass =
            [RSetPipeline cellPipeline,
             SetVertexBuffer 0 vertexBuffer,
             RSetBindGroup 0 bindGroup,
             Draw (length vertices div 2) (RENDER_ONLY_GRID_SIZE * RENDER_ONLY_GRID_SIZE)];
          encoder = [RenderPass (0, 0, 0.4, 1) pass]
      in submit device [encoder])"

definition render_only_main ::
  "environment \<Rightarrow> platform_call list \<times> (error + GPUDevice)" where
  "render_only_main env =
     (case bootstrap env of
        (calls, Inl e) \<Rightarrow> (calls, Inl e)
      | (calls, Inr (dev, ctx, format)) \<Rightarrow>
          (calls, Inr (render_only_initialise env dev format)))"

section \<open>What a run leaves on the device queue\<close>

text \<open>
  The command buffers the host has submitted, and the buffer uploads it has made, both
  oldest first.
\<close>

fun submitted_by :: "queue_op \<Rightarrow> command_buffer list" where
  "submitted_by (Submit cbs) = cbs"
| "submitted_by (WriteBuffer b off a) = []"

definition submitted :: "GPUDevice \<Rightarrow> command_buffer list" where
  "submitted d = concat (map submitted_by (queue d))"

fun upload_of :: "queue_op \<Rightarrow> (GPUBuffer \<times> TypedArray) list" where
  "upload_of (WriteBuffer b off a) = [(b, a)]"
| "upload_of (Submit cbs) = []"

definition uploads :: "GPUDevice \<Rightarrow> (GPUBuffer \<times> TypedArray) list" where
  "uploads d = concat (map upload_of (queue d))"

text \<open>The command buffer that a call of the frame driver in state \<open>p\<close> submits.\<close>

definition frame :: "program \<Rightarrow> command_buffer" where
  "frame p = last (submitted (device (updateGrid p)))"

text \<open>Reading a command buffer: its passes, bind groups, dispatches and draws.\<close>

fun compute_commands :: "pass \<Rightarrow> compute_command list" where
  "compute_commands (ComputePass cs) = cs"
| "compute_commands (RenderPass c rs) = []"

fun render_commands :: "pass \<Rightarrow> render_command list" where
  "render_commands (RenderPass c rs) = rs"
| "render_commands (ComputePass cs) = []"

fun is_compute_pass :: "pass \<Rightarrow> bool" where
  "is_compute_pass (ComputePass cs) = True"
| "is_compute_pass (RenderPass c rs) = False"

fun compute_group_of :: "compute_command \<Rightarrow> GPUBindGroup list" where
  "compute_group_of (CSetBindGroup i g) = [g]"
| "compute_group_of (CSetPipeline pl) = []"
| "compute_group_of (DispatchWorkgroups x y) = []"

fun dispatch_of :: "compute_command \<Rightarrow> (nat \<times> nat) list" where
  "dispatch_of (DispatchWorkgroups x y) = [(x, y)]"
| "dispatch_of (CSetPipeline pl) = []"
| "dispatch_of (CSetBindGroup i g) = []"

fun render_group_of :: "render_command \<Rightarrow> GPUBindGroup list" where
  "render_group_of (RSetBindGroup i g) = [g]"
| "render_group_of (RSetPipeline pl) = []"
| "render_group_of (SetVertexBuffer i b) = []"
| "render_group_of (Draw v n) = []"

fun draw_of :: "render_command \<Rightarrow> (nat \<times> nat) list" where
  "draw_of (Draw v n) = [(v, n)]"
| "draw_of (RSetPipeline pl) = []"
| "draw_of (RSetBindGroup i g) = []"
| "draw_of (SetVertexBuffer i b) = []"

definition compute_groups :: "command_buffer \<Rightarrow> GPUBindGroup list" where
  "compute_groups cb = concat (map compute_group_of (concat (map compute_commands cb)))"

definition dispatches :: "command_buffer \<Rightarrow> (nat \<times> nat) list" where
  "dispatches cb = concat (map dispatch_of (concat (map compute_commands cb)))"

definition render_groups :: "command_buffer \<Rightarrow> GPUBindGroup list" where
  "render_groups cb = concat (map render_group_of (concat (map render_commands cb)))"

definition draws :: "command_buffer \<Rightarrow> (nat \<times> nat) list" where
  "draws cb = concat (map draw_of (concat (map render_commands cb)))"

text \<open>
  The buffer a bind group has at a binding, and the buffers a frame's compute pass has
  at binding 1 (its read-only input) and at binding 2 (its writable output).
\<close>

definition resource_at :: "GPUBindGroup \<Rightarrow> nat \<Rightarrow> GPUBuffer option" where
  "resource_at g i = map_of (bg_entries g) i"

definition compute_inputs :: "command_buffer \<Rightarrow> GPUBuffer option list" where
  "compute_inputs cb = map (\<lambda>g. resource_at g 1) (compute_groups cb)"

definition compute_outputs :: "command_buffer \<Rightarrow> GPUBuffer option list" where
  "compute_outputs cb = map (\<lambda>g. resource_at g 2) (compute_groups cb)"

subsection \<open>A concrete browser\<close>

definition example_gpu :: GPU where
  "example_gpu = \<lparr>requestAdapter = Some GPUAdapter, getPreferredCanvasFormat = bgra8unorm\<rparr>"

definition example_canvas :: HTMLCanvasElement where
  "example_canvas = \<lparr>getContext = Some \<lparr>configuration = None\<rparr>\<rparr>"

definition example_env :: environment where
  "example_env =
     \<lparr>querySelector_canvas = Some example_canvas,
      navigator_gpu = Some example_gpu,
      requestDevice_resolves = True,
      cellShaderCode = ''cellShader.wgsl'',
      computeShaderCode = ''computeShader.wgsl''\<rparr>"

definition example_random :: "nat \<Rightarrow> real" where
  "example_random i = (if even i then 0.9 else 0.25)"

definition example_program :: program where
  "example_program = initialise example_env (requestDevice GPUAdapter) bgra8unorm example_random"

section \<open>Auxiliary facts\<close>

subsection \<open>Rounding a quotient up\<close>

lemma ceil_quotient_int: "int (ceil_quotient n t) = \<lceil>real n / real t\<rceil>"
proof -
  have "0 \<le> real n / real t" by simp
  then have "0 \<le> \<lceil>real n / real t\<rceil>" by (simp only: zero_le_ceiling)
  then show ?thesis unfolding ceil_quotient_def by (simp only: int_nat_eq if_True)
qed

lemma ceil_quotient_covers:
  assumes "0 < t" shows "n \<le> ceil_quotient n t * t"
proof -
  let ?c = "\<lceil>real n / real t\<rceil>"
  have "0 \<le> real n / real t" by simp
  then have nonneg: "0 \<le> ?c" by (simp only: zero_le_ceiling)
  have "real n / real t \<le> of_int ?c" by (rule le_of_int_ceiling)
  moreover have tpos: "0 < real t" using assms by simp
  ultimately have "real n \<le> of_int ?c * real t" by (simp only: pos_divide_le_eq)
  also have "of_int ?c = real (nat ?c)" using nonneg by simp
  finally have "real n \<le> real (nat ?c * t)" by simp
  then show ?thesis unfolding ceil_quotient_def by (simp only: of_nat_le_iff)
qed

lemma ceil_quotient_least:
  assumes "0 < t" "n \<le> k * t" shows "ceil_quotient n t \<le> k"
proof -
  have "real n \<le> real k * real t" using assms(2) by (metis of_nat_le_iff of_nat_mult)
  moreover have "0 < real t" using assms(1) by simp
  ultimately have "real n / real t \<le> real k" by (simp only: pos_divide_le_eq)
  then have "\<lceil>real n / real t\<rceil> \<le> \<lceil>real k\<rceil>" by (rule ceiling_mono)
  then have "\<lceil>real n / real t\<rceil> \<le> int k" by (simp only: ceiling_of_nat)
  then show ?thesis unfolding ceil_quotient_def by (simp only: nat_le_iff)
qed

lemma ceil_quotient_div:
  assumes "0 < t" shows "ceil_quotient n t = (n + t - 1) div t"
proof (rule antisym)
  have "n \<le> ((n + t - 1) div t) * t"
  proof -
    have "n + t - 1 < ((n + t - 1) div t) * t + t"
      using assms by (metis div_mult_mod_eq add_less_cancel_left mod_less_divisor)
    then show ?thesis using assms by simp
  qed
  then show "ceil_quotient n t \<le> (n + t - 1) div t" using assms by (rule ceil_quotient_least[rotated])
next
  have "n \<le> ceil_quotient n t * t" using assms by (rule ceil_quotient_covers)
  then have "n + t - 1 < ceil_quotient n t * t + t" using assms by simp
  then have "(n + t - 1) div t < ceil_quotient n t + 1"
    using assms by (simp add: div_less_iff_less_mult algebra_simps)
  then show "(n + t - 1) div t \<le> ceil_quotient n t" by simp
qed


subsection \<open>The state after initialisation\<close>

lemmas create_defs = createBuffer_def writeBuffer_def createShaderModule_def
   createBindGroupLayout_def createBindGroup_def createPipelineLayout_def createRenderPipeline_def createComputePipeline_def

lemma length_seed_loop: "length (seed_loop r i a) = length a"
proof (induction r i a rule: seed_loop.induct)
  case (1 random i a)
  show ?case
  proof (cases "i < length a")
    case True
    then show ?thesis using 1 by (subst seed_loop.simps) simp
  next
    case False
    then show ?thesis by (subst seed_loop.simps) simp
  qed
qed

lemma initialise_cellStateStorage:
  "cellStateStorage (initialise env d f r) =
     [\<lparr>buffer_id = next_id d + 2, buffer_label = ''Cell State A'',
       buffer_size = 4 * (GRID_SIZE * GRID_SIZE), buffer_usage = {STORAGE, COPY_DST}\<rparr>,
      \<lparr>buffer_id = next_id d + 3, buffer_label = ''Cell State B'',
       buffer_size = 4 * (GRID_SIZE * GRID_SIZE), buffer_usage = {STORAGE, COPY_DST}\<rparr>]"
  by (simp add: initialise_def Let_def create_defs split: prod.splits)

lemma initialise_uniformBuffer:
  "uniformBuffer (initialise env d f r) =
     \<lparr>buffer_id = next_id d + 1, buffer_label = ''Grid Uniforms'',
      buffer_size = 8, buffer_usage = {UNIFORM, COPY_DST}\<rparr>"
  by (simp add: initialise_def Let_def create_defs split: prod.splits)

lemma initialise_vertexBuffer:
  "vertexBuffer (initialise env d f r) =
     \<lparr>buffer_id = next_id d, buffer_label = ''Cell vertices'',
      buffer_size = 48, buffer_usage = {VERTEX, COPY_DST}\<rparr>"
  by (simp add: initialise_def Let_def create_defs vertices_def split: prod.splits)

lemma initialise_bindGroupLayout:
  "bindGroupLayout (initialise env d f r) =
     \<lparr>bgl_id = next_id d + 6, bgl_label = ''Cell Bind Group Layout'',
      bgl_entries = cell_layout_entries\<rparr>"
  by (simp add: initialise_def Let_def create_defs split: prod.splits)

lemma initialise_bindGroups:
  "bindGroups (initialise env d f r) =
     (let p = initialise env d f r in
      [\<lparr>bg_id = next_id d + 7, bg_label = ''Cell renderer bind group A'',
        bg_layout = made_layout (bindGroupLayout p),
        bg_entries = [(0, uniformBuffer p), (1, cellStateStorage p ! 0),
                      (2, cellStateStorage p ! 1)]\<rparr>,
       \<lparr>bg_id = next_id d + 8, bg_label = ''Cell renderer bind group B'',
        bg_layout = made_layout (bindGroupLayout p),
        bg_entries = [(0, uniformBuffer p), (1, cellStateStorage p ! 1),
                      (2, cellStateStorage p ! 0)]\<rparr>])"
  by (simp add: initialise_def Let_def create_defs split: prod.splits)

lemma initialise_queue:
  "queue (device (initialise env d f r)) =
     (let p = initialise env d f r in
      queue d @
      [WriteBuffer (cellStateStorage p ! 0) 0 (Uint32Array (cellStateArray p)),
       WriteBuffer (vertexBuffer p) 0 (Float32Array vertices),
       WriteBuffer (uniformBuffer p) 0 (Float32Array (uniformArray p))])"
  by (simp add: initialise_def Let_def create_defs split: prod.splits)

lemma initialise_cellStateArray:
  "cellStateArray (initialise env d f r) =
     seed_loop r 0 (replicate (GRID_SIZE * GRID_SIZE) 0)"
  by (simp add: initialise_def Let_def create_defs split: prod.splits)

lemma initialise_step: "step (initialise env d f r) = 0"
  by (simp add: initialise_def Let_def create_defs split: prod.splits)

subsection \<open>One call of the frame driver, and many\<close>

lemma updateGrid_eq: "updateGrid p = p\<lparr>step := js_increment (step p),
  device := (device p)\<lparr>queue := queue (device p) @ [Submit [[
     ComputePass [CSetPipeline (simulationPipeline p),
             CSetBindGroup 0 (bindGroups p ! (step p mod 2)),
           DispatchWorkgroups (ceil_quotient GRID_SIZE WORKGROUP_SIZE) (ceil_quotient GRID_SIZE WORKGROUP_SIZE)],
     RenderPass (0, 0, 0.4, 1) [RSetPipeline (cellPipeline p),
             RSetBindGroup 0 (bindGroups p ! (js_increment (step p) mod 2)),
             SetVertexBuffer 0 (vertexBuffer p),
             Draw (length vertices div 2) (GRID_SIZE * GRID_SIZE)]]]]\<rparr>\<rparr>"
  by (simp add: updateGrid_def Let_def submit_def)

lemma frame_eq: "frame p = [
     ComputePass [CSetPipeline (simulationPipeline p),
             CSetBindGroup 0 (bindGroups p ! (step p mod 2)),
           DispatchWorkgroups (ceil_quotient GRID_SIZE WORKGROUP_SIZE) (ceil_quotient GRID_SIZE WORKGROUP_SIZE)],
     RenderPass (0, 0, 0.4, 1) [RSetPipeline (cellPipeline p),
             RSetBindGroup 0 (bindGroups p ! (js_increment (step p) mod 2)),
             SetVertexBuffer 0 (vertexBuffer p),
             Draw (length vertices div 2) (GRID_SIZE * GRID_SIZE)]]"
  by (simp add: frame_def submitted_def updateGrid_eq)

lemma submitted_updateGrid: "submitted (device (updateGrid p)) = submitted (device p) @ [frame p]"
  by (simp add: frame_eq) (simp add: submitted_def updateGrid_eq)

lemma uploads_updateGrid: "uploads (device (updateGrid p)) = uploads (device p)"
  by (simp add: uploads_def updateGrid_eq)

lemma step_updateGrid: "step (updateGrid p) = js_increment (step p)"
  by (simp add: updateGrid_eq)

lemma updateGrid_static:
  "bindGroups (updateGrid p) = bindGroups p"
  "cellStateStorage (updateGrid p) = cellStateStorage p"
  "vertexBuffer (updateGrid p) = vertexBuffer p"
  "uniformBuffer (updateGrid p) = uniformBuffer p"
  "cellStateArray (updateGrid p) = cellStateArray p"
  "uniformArray (updateGrid p) = uniformArray p"
  "bindGroupLayout (updateGrid p) = bindGroupLayout p"
  "cellPipeline (updateGrid p) = cellPipeline p"
  "simulationPipeline (updateGrid p) = simulationPipeline p"
  "canvasFormat (updateGrid p) = canvasFormat p"
  "next_id (device (updateGrid p)) = next_id (device p)"
  by (simp_all add: updateGrid_eq)

lemma frames_static:
  "bindGroups (frames n p) = bindGroups p"
  "cellStateStorage (frames n p) = cellStateStorage p"
  "vertexBuffer (frames n p) = vertexBuffer p"
  "uniformBuffer (frames n p) = uniformBuffer p"
  "cellStateArray (frames n p) = cellStateArray p"
  "uniformArray (frames n p) = uniformArray p"
  "bindGroupLayout (frames n p) = bindGroupLayout p"
  "cellPipeline (frames n p) = cellPipeline p"
  "simulationPipeline (frames n p) = simulationPipeline p"
  "canvasFormat (frames n p) = canvasFormat p"
  "next_id (device (frames n p)) = next_id (device p)"
  by (induction n; simp add: updateGrid_static)+

lemma step_frames: "step p \<le> MAX_EXACT \<Longrightarrow> step (frames n p) = min (step p + n) MAX_EXACT"
  by (induction n) (auto simp: step_updateGrid js_increment_def)

lemma submitted_frames:
  "submitted (device (frames n p)) = submitted (device p) @ map (\<lambda>k. frame (frames k p)) [0..<n]"
  by (induction n) (simp_all add: submitted_updateGrid)

lemma uploads_frames: "uploads (device (frames n p)) = uploads (device p)"
  by (induction n) (simp_all add: uploads_updateGrid)

lemma frame_groups:
  "compute_groups (frame p) = [bindGroups p ! (step p mod 2)]"
  "render_groups (frame p) = [bindGroups p ! (js_increment (step p) mod 2)]"
  "dispatches (frame p) = [(ceil_quotient GRID_SIZE WORKGROUP_SIZE, ceil_quotient GRID_SIZE WORKGROUP_SIZE)]"
  "draws (frame p) = [(length vertices div 2, GRID_SIZE * GRID_SIZE)]"
  by (simp_all add: frame_eq compute_groups_def render_groups_def dispatches_def draws_def)

subsection \<open>The cells after seeding\<close>

lemma seed_loop_nth:
  "j < length a \<Longrightarrow> seed_loop r i a ! j = (if i \<le> j then seed_cell (r j) else a ! j)"
proof (induction r i a rule: seed_loop.induct)
  case (1 random i a)
  show ?case
  proof (cases "i < length a")
    case True
    let ?a = "a[i := seed_cell (random i)]"
    have unfold: "seed_loop random i a = seed_loop random (i + 1) ?a"
      using True by (subst seed_loop.simps) simp
    have later: "seed_loop random (i + 1) ?a ! j =
        (if i + 1 \<le> j then seed_cell (random j) else ?a ! j)"
      using "1.IH" [OF True] "1.prems" by simp
    show ?thesis
    proof (cases "j = i")
      case True
      then show ?thesis using unfold later \<open>i < length a\<close> by simp
    next
      case False
      then have "i + 1 \<le> j \<longleftrightarrow> i \<le> j" by arith
      then show ?thesis using unfold later False by simp
    qed
  next
    case False
    then show ?thesis using 1 by (subst seed_loop.simps) simp
  qed
qed

lemma initialise_cell:
  "j < GRID_SIZE * GRID_SIZE \<Longrightarrow> cellStateArray (initialise env d f r) ! j = seed_cell (r j)"
  by (simp add: initialise_cellStateArray seed_loop_nth)

subsection \<open>Uploads, submissions and the whole run\<close>

lemma cell_is_bit: "seed_cell r = 0 \<or> seed_cell r = 1"
  by (simp add: seed_cell_def)

lemma initialise_cells_bits:
  assumes "x \<in> set (cellStateArray (initialise env d f r))"
  shows "x = 0 \<or> x = 1"
proof -
  let ?a = "cellStateArray (initialise env d f r)"
  have len: "length ?a = GRID_SIZE * GRID_SIZE"
    by (simp add: initialise_cellStateArray length_seed_loop)
  from assms obtain j where "j < length ?a" and "x = ?a ! j"
    by (auto simp: in_set_conv_nth)
  then have "x = seed_cell (r j)"
    using len by (simp add: initialise_cell)
  then show ?thesis
    using cell_is_bit by simp
qed

lemma initialise_uploads:
  "uploads (device (initialise env d f r)) =
     (let p = initialise env d f r in
      uploads d @
      [(cellStateStorage p ! 0, Uint32Array (cellStateArray p)),
       (vertexBuffer p, Float32Array vertices),
       (uniformBuffer p, Float32Array (uniformArray p))])"
  by (simp add: uploads_def initialise_queue Let_def)

lemma uploads_requestDevice: "uploads (requestDevice a) = []"
  by (simp add: uploads_def requestDevice_def)

lemma submitted_requestDevice: "submitted (requestDevice a) = []"
  by (simp add: submitted_def requestDevice_def)

lemma submitted_initialise: "submitted (device (initialise env d f r)) = submitted d"
  by (simp add: submitted_def initialise_queue Let_def)

lemma render_only_queue:
  "queue (render_only_initialise env d f) =
     (let V = \<lparr>buffer_id = next_id d, buffer_label = ''Cell vertices'', buffer_size = 48,
                buffer_usage = {VERTEX, COPY_DST}\<rparr>;
          U = \<lparr>buffer_id = next_id d + 1, buffer_label = ''Grid Uniforms'', buffer_size = 8,
                buffer_usage = {UNIFORM, COPY_DST}\<rparr>;
          pipeline = \<lparr>rp_id = next_id d + 3, rp_label = ''Cell pipeline'',
                rp_layout = auto_layout,
                rp_module = \<lparr>sm_id = next_id d + 2, sm_label = ''Cell shader'',
                              sm_code = cellShaderCode env\<rparr>,
                rp_vertex_entry = ''vertexMain'', rp_array_stride = 8,
                rp_fragment_entry = ''fragmentMain'', rp_target = f\<rparr>
      in queue d @
         [WriteBuffer V 0 (Float32Array vertices),
          WriteBuffer U 0
            (Float32Array [real RENDER_ONLY_GRID_SIZE, real RENDER_ONLY_GRID_SIZE]),
          Submit [[RenderPass (0, 0, 0.4, 1)
            [RSetPipeline pipeline,
             SetVertexBuffer 0 V,
             RSetBindGroup 0
               \<lparr>bg_id = next_id d + 4, bg_label = ''Cell renderer bind group'',
                bg_layout = pipeline_layout_of (next_id d + 3) 0, bg_entries = [(0, U)]\<rparr>,
             Draw (length vertices div 2)
               (RENDER_ONLY_GRID_SIZE * RENDER_ONLY_GRID_SIZE)]]]])"
  by (simp add: render_only_initialise_def Let_def create_defs submit_def split: prod.splits)
    (simp add: vertices_def)

lemma length_vertices: "length vertices = 12"
  by (simp add: vertices_def)

lemma frames_eq:
  "frames n p =
     p\<lparr>step := step (frames n p),
       device := (device p)\<lparr>queue :=
         queue (device p) @ map (\<lambda>k. Submit [frame (frames k p)]) [0..<n]\<rparr>\<rparr>"
proof (induction n)
  case 0
  show ?case by simp
next
  case (Suc n)
  have "frames (Suc n) p = updateGrid (frames n p)"
    by simp
  also have "\<dots> = (frames n p)\<lparr>step := js_increment (step (frames n p)),
      device := (device (frames n p))\<lparr>queue :=
        queue (device (frames n p)) @ [Submit [frame (frames n p)]]\<rparr>\<rparr>"
    by (simp add: updateGrid_eq frame_eq)
  finally show ?case
    by (subst (asm) (1 2 3) Suc.IH) (simp add: step_updateGrid)
qed

subsection \<open>The step counter and the buffers of a frame\<close>

lemma step_frames_initialise: "step (frames n (initialise env d f r)) = min n MAX_EXACT"
  by (simp add: step_frames initialise_step)

lemma MAX_EXACT_even: "MAX_EXACT mod 2 = 0"
  by (simp add: MAX_EXACT_def)

lemma nth_submitted_frames:
  assumes "submitted (device p) = []" and "k < n"
  shows "submitted (device (frames n p)) ! k = frame (frames k p)"
  using assms by (simp add: submitted_frames)

lemma initialise_groups_distinct:
  "bg_id (bindGroups (initialise env d f r) ! 0) \<noteq> bg_id (bindGroups (initialise env d f r) ! 1)"
  by (simp add: initialise_bindGroups Let_def)

lemma initialise_group_resources:
  "resource_at (bindGroups (initialise env d f r) ! 0) (Suc 0) =
     Some (cellStateStorage (initialise env d f r) ! 0)"
  "resource_at (bindGroups (initialise env d f r) ! 0) 2 =
     Some (cellStateStorage (initialise env d f r) ! Suc 0)"
  "resource_at (bindGroups (initialise env d f r) ! Suc 0) (Suc 0) =
     Some (cellStateStorage (initialise env d f r) ! Suc 0)"
  "resource_at (bindGroups (initialise env d f r) ! Suc 0) 2 =
     Some (cellStateStorage (initialise env d f r) ! 0)"
  by (simp_all add: initialise_bindGroups Let_def resource_at_def)

lemma initialise_storage_distinct:
  "buffer_id (cellStateStorage (initialise env d f r) ! 0) \<noteq>
   buffer_id (cellStateStorage (initialise env d f r) ! 1)"
  by (simp add: initialise_cellStateStorage)

lemma parity_cases: "(s :: nat) mod 2 = 0 \<and> (s + 1) mod 2 = 1 \<or> s mod 2 = 1 \<and> (s + 1) mod 2 = 0"
  by presburger

lemma compute_io_frame:
  "compute_inputs (frame (frames k (initialise env d f r))) =
     [Some (cellStateStorage (initialise env d f r) ! (min k MAX_EXACT mod 2))]"
  "compute_outputs (frame (frames k (initialise env d f r))) =
     [Some (cellStateStorage (initialise env d f r) ! ((min k MAX_EXACT + 1) mod 2))]"
  using parity_cases [of "min k MAX_EXACT"]
  by (auto simp: compute_inputs_def compute_outputs_def frame_groups frames_static
      step_frames_initialise initialise_group_resources)

subsection \<open>Start-up, and frames that do not throw\<close>

lemma initialise_next_id: "next_id (device (initialise env d f r)) = next_id d + 12"
  by (simp add: initialise_def Let_def create_defs split: prod.splits)

lemma initialise_two_groups: "length (bindGroups (initialise env d f r)) = 2"
  by (simp add: initialise_bindGroups Let_def)

lemma updateGrid_checked_eq:
  assumes "length (bindGroups p) = 2" and "configuration ctx = Some format"
  shows "updateGrid_checked ctx p = Inr (updateGrid p)"
proof -
  have first: "element_at (bindGroups p) (step p mod 2) = Some (bindGroups p ! (step p mod 2))"
    using assms(1) by (simp add: element_at_def)
  have second: "element_at (bindGroups p) (js_increment (step p) mod 2) =
      Some (bindGroups p ! (js_increment (step p) mod 2))"
    using assms(1) by (simp add: element_at_def)
  have counts: "ceil_quotient GRID_SIZE WORKGROUP_SIZE < 2 ^ 32"
    "length vertices div 2 < 2 ^ 32" "GRID_SIZE * GRID_SIZE < 2 ^ 32"
    by (simp_all add: ceil_quotient_def GRID_SIZE_def WORKGROUP_SIZE_def length_vertices)
  show ?thesis
    using counts by (simp add: updateGrid_checked_def updateGrid_def Let_def first second assms(2))
qed

lemma frames_never_throw:
  assumes "configuration ctx = Some format"
  shows "updateGrid_checked ctx (frames n (initialise env d f r)) =
    Inr (frames (Suc n) (initialise env d f r))"
  using assms by (simp add: updateGrid_checked_eq frames_static initialise_two_groups)

lemma bootstrap_cases:
  "bootstrap env =
     (case navigator_gpu env of
        None \<Rightarrow> ([QuerySelector], Inl (Error ''WebGPU not supported on this browser.''))
      | Some g \<Rightarrow>
         (case requestAdapter g of
            None \<Rightarrow> ([QuerySelector, RequestAdapter], Inl (Error ''No appropriate GPUAdapter found.''))
          | Some a \<Rightarrow>
             if \<not> requestDevice_resolves env
             then ([QuerySelector, RequestAdapter, RequestDevice], Inl Rejected)
             else
               (case querySelector_canvas env of
                  None \<Rightarrow> ([QuerySelector, RequestAdapter, RequestDevice], Inl TypeError)
                | Some c \<Rightarrow>
                   (case getContext c of
                      None \<Rightarrow> ([QuerySelector, RequestAdapter, RequestDevice, GetContext],
                                Inl (Error ''Unable to obtain WebGPU context.''))
                    | Some ctx \<Rightarrow>
                        ([QuerySelector, RequestAdapter, RequestDevice, GetContext,
                          GetPreferredCanvasFormat, Configure],
                         Inr (requestDevice a,
                              ctx\<lparr>configuration := Some (getPreferredCanvasFormat g)\<rparr>,
                              getPreferredCanvasFormat g))))))"
  by (simp add: bootstrap_def Let_def split: option.splits)

section \<open>Workgroups per axis\<close>

text \<open>
  Claim C3. For every grid side length \<open>n\<close> and every tile size \<open>t\<close> (a positive
  number of cells), the number of workgroups per axis is the ceiling of the quotient
  \<open>n / t\<close>: that many tiles cover \<open>n\<close> cells, no smaller number of tiles does, and it is
  \<open>(n + t - 1) div t\<close>. The dispatch of every frame is square, with that count on both
  axes, and with the program's sizes 128 and 8 the count is 16.
\<close>

theorem workgroup_count_is_ceiling:
  assumes "0 < t"
  shows "int (ceil_quotient n t) = \<lceil>real n / real t\<rceil>
    \<and> n \<le> ceil_quotient n t * t
    \<and> (n \<le> k * t \<longrightarrow> ceil_quotient n t \<le> k)
    \<and> ceil_quotient n t = (n + t - 1) div t
    \<and> dispatches (frame p) =
        [(ceil_quotient GRID_SIZE WORKGROUP_SIZE, ceil_quotient GRID_SIZE WORKGROUP_SIZE)]
    \<and> ceil_quotient GRID_SIZE WORKGROUP_SIZE = 16
    \<and> ceil_quotient 128 8 = 16"
proof -
  have "ceil_quotient 128 8 = 16"
    by (simp add: ceil_quotient_def)
  moreover have "ceil_quotient GRID_SIZE WORKGROUP_SIZE = 16"
    by (simp add: ceil_quotient_def GRID_SIZE_def WORKGROUP_SIZE_def)
  ultimately show ?thesis
    using assms ceil_quotient_covers [OF assms, of n] ceil_quotient_least [OF assms, of n k]
      ceil_quotient_div [OF assms, of n] frame_groups(3) [of p] ceil_quotient_int [of n t]
    by blast
qed

text \<open>A grid of 130 cells needs 17 tiles of 8; the program's own dispatch is 16 by 16.\<close>

theorem workgroup_count_is_ceiling_witness:
  "(0 :: nat) < 8 \<and> (130 :: nat) \<le> 17 * 8 \<and> 130 \<le> ceil_quotient 130 8 * 8
    \<and> ceil_quotient 130 8 = 17 \<and> \<lceil>130 / 8 :: real\<rceil> = 17
    \<and> dispatches (frame example_program) = [(16, 16)]"
  using workgroup_count_is_ceiling [of 8 130 17 example_program] by simp

section \<open>Seeding\<close>

text \<open>
  Claim C5, as the program has it. A cell whose random value is greater than 0.6 is
  set to alive (state 1), and otherwise to dead (state 0). The random values in
  \<open>[0, 1)\<close> that make a cell alive are those of the interval \<open>(0.6, 1)\<close>, of length
  0.4; and cell \<open>j\<close> of the seed array is decided by the \<open>j\<close>-th random value.
\<close>

theorem seed_cell_alive_above_threshold:
  "(seed_cell r = 1 \<longleftrightarrow> r > 0.6) \<and> (seed_cell r = 0 \<longleftrightarrow> r \<le> 0.6)
    \<and> {x. 0 \<le> x \<and> x < 1 \<and> seed_cell x = 1} = {0.6 <..< 1}
    \<and> (j < GRID_SIZE * GRID_SIZE \<longrightarrow>
         cellStateArray (initialise env d f random) ! j = seed_cell (random j))"
proof -
  have "{x. 0 \<le> x \<and> x < 1 \<and> seed_cell x = 1} = {0.6 <..< 1}"
    by (auto simp: seed_cell_def)
  then show ?thesis
    by (simp add: initialise_cell) (simp add: seed_cell_def)
qed

theorem seed_cell_alive_above_threshold_witness:
  "seed_cell 0.9 = 1 \<and> (0.9 :: real) > 0.6 \<and> seed_cell 0.25 = 0 \<and> (0.25 :: real) \<le> 0.6
    \<and> (0 :: nat) < GRID_SIZE * GRID_SIZE \<and> cellStateArray example_program ! 0 = 1"
  using seed_cell_alive_above_threshold [of "0.9"]
    seed_cell_alive_above_threshold [of "0.25"]
    seed_cell_alive_above_threshold [of 0 0 example_env "requestDevice GPUAdapter" bgra8unorm example_random]
  by (simp add: example_program_def example_random_def GRID_SIZE_def)

text \<open>
  Claim C5 as stated has the two outcomes exchanged (greater than 0.6 gives dead,
  otherwise alive): the random value 0.9 is greater than 0.6 and gives an alive cell,
  and 0.25 is not and gives a dead one.
\<close>

theorem seed_cell_dead_above_threshold_counterexample:
  "(0.9 :: real) > 0.6 \<and> seed_cell 0.9 = 1 \<and> seed_cell 0.9 \<noteq> 0
    \<and> \<not> (0.25 :: real) > 0.6 \<and> seed_cell 0.25 = 0 \<and> seed_cell 0.25 \<noteq> 1"
  by (simp add: seed_cell_def)

text \<open>
  Claim C6. During initialisation exactly one of the two cell-state storage buffers,
  the first, receives a host upload, and what is uploaded is the seed array; every
  element of the seed array is 0 or 1; the other storage buffer is a different buffer
  and receives no upload. The only other uploads are the vertices and the grid uniform.
\<close>

theorem one_storage_buffer_seeded:
  "(let p = initialise env (requestDevice a) f random;
        S0 = cellStateStorage p ! 0; S1 = cellStateStorage p ! 1
    in cellStateStorage p = [S0, S1] \<and> buffer_id S0 \<noteq> buffer_id S1
       \<and> uploads (device p) =
           [(S0, Uint32Array (cellStateArray p)),
            (vertexBuffer p, Float32Array vertices),
            (uniformBuffer p, Float32Array (uniformArray p))]
       \<and> buffer_id S1 \<notin> set (map (buffer_id \<circ> fst) (uploads (device p)))
       \<and> filter (\<lambda>b. buffer_id b \<in> {buffer_id S0, buffer_id S1})
            (map fst (uploads (device p))) = [S0]
       \<and> length (cellStateArray p) = GRID_SIZE * GRID_SIZE
       \<and> (\<forall>x \<in> set (cellStateArray p). x = 0 \<or> x = 1))"
proof -
  let ?p = "initialise env (requestDevice a) f random"
  have bits: "\<forall>x \<in> set (cellStateArray ?p). x = 0 \<or> x = 1"
    using initialise_cells_bits by blast
  have len: "length (cellStateArray ?p) = GRID_SIZE * GRID_SIZE"
    by (simp add: initialise_cellStateArray length_seed_loop)
  have rest: "cellStateStorage ?p = [cellStateStorage ?p ! 0, cellStateStorage ?p ! 1]
    \<and> buffer_id (cellStateStorage ?p ! 0) \<noteq> buffer_id (cellStateStorage ?p ! 1)
    \<and> buffer_id (cellStateStorage ?p ! 1) \<noteq> buffer_id (vertexBuffer ?p)
    \<and> buffer_id (cellStateStorage ?p ! 1) \<noteq> buffer_id (uniformBuffer ?p)
    \<and> buffer_id (cellStateStorage ?p ! 0) \<noteq> buffer_id (vertexBuffer ?p)
    \<and> buffer_id (cellStateStorage ?p ! 0) \<noteq> buffer_id (uniformBuffer ?p)"
    by (simp add: initialise_cellStateStorage initialise_vertexBuffer initialise_uniformBuffer)
  show ?thesis
    unfolding Let_def using bits len rest
    by (simp add: initialise_uploads uploads_requestDevice Let_def)
qed

text \<open>
  With the example browser, where the random values alternate between 0.9 and 0.25:
  cell 0 is alive, cell 1 is dead, and the three uploads go to the first storage buffer,
  the vertex buffer and the uniform buffer.
\<close>

theorem one_storage_buffer_seeded_witness:
  "cellStateArray example_program ! 1 \<in> set (cellStateArray example_program)
   \<and> cellStateArray example_program ! 1 = 0
   \<and> cellStateArray example_program ! 0 = 1
   \<and> map (buffer_label \<circ> fst) (uploads (device example_program)) =
       [''Cell State A'', ''Cell vertices'', ''Grid Uniforms'']
   \<and> buffer_label (cellStateStorage example_program ! 1) = ''Cell State B''"
proof -
  note seeded = one_storage_buffer_seeded [of example_env GPUAdapter bgra8unorm example_random,
      unfolded Let_def, folded example_program_def]
  have len: "1 < length (cellStateArray example_program)"
    using seeded by (simp add: GRID_SIZE_def)
  then have mem: "cellStateArray example_program ! 1 \<in> set (cellStateArray example_program)"
    by (rule nth_mem)
  have bit: "cellStateArray example_program ! 1 = 0 \<or> cellStateArray example_program ! 1 = 1"
    using seeded mem by blast
  have "cellStateArray example_program ! 1 = seed_cell (example_random 1)"
    unfolding example_program_def by (rule initialise_cell) (simp add: GRID_SIZE_def)
  then have zero: "cellStateArray example_program ! 1 = 0"
    by (simp add: example_random_def seed_cell_def)
  have "cellStateArray example_program ! 0 = seed_cell (example_random 0)"
    unfolding example_program_def by (rule initialise_cell) (simp add: GRID_SIZE_def)
  then have one: "cellStateArray example_program ! 0 = 1"
    by (simp add: example_random_def seed_cell_def)
  have labels: "map (buffer_label \<circ> fst) (uploads (device example_program)) =
       [''Cell State A'', ''Cell vertices'', ''Grid Uniforms'']"
    using seeded
    by (simp add: example_program_def initialise_cellStateStorage initialise_vertexBuffer
        initialise_uniformBuffer)
  have "buffer_label (cellStateStorage example_program ! 1) = ''Cell State B''"
    by (simp add: example_program_def initialise_cellStateStorage)
  then show ?thesis
    using mem zero one labels by simp
qed

section \<open>Start-up failures\<close>

text \<open>
  Claim C8, as the program has it. Start-up aborts with a message of its own in exactly
  three cases, each with the message that names it: \<^verbatim>\<open>navigator.gpu\<close> is absent; no
  adapter is returned; or, the device request having resolved and the page having a
  canvas element, the canvas gives no WebGPU context. It aborts in two more cases, with
  the exception of the platform instead of a message: when \<^verbatim>\<open>requestDevice()\<close> rejects,
  and when the page has no canvas element. In every other case initialisation
  completes: the six requests have been made, the context is configured, all twelve
  objects are created, the three uploads are made, nothing is submitted yet and the
  step counter is 0; and after that no call in the frame driver throws, in any frame.
  No request is made twice (there is no retry), and an abort comes before the surface is
  configured, so before anything is created or uploaded (nothing is left half done).
  The render-only variant makes the same requests and aborts in the same cases with
  the same exception.
\<close>

theorem start_up_aborts_exactly:
  "(snd (main env random) = Inl (Error ''WebGPU not supported on this browser.'')
      \<longleftrightarrow> navigator_gpu env = None)
   \<and> (snd (main env random) = Inl (Error ''No appropriate GPUAdapter found.'')
      \<longleftrightarrow> (\<exists>g. navigator_gpu env = Some g \<and> requestAdapter g = None))
   \<and> (snd (main env random) = Inl (Error ''Unable to obtain WebGPU context.'')
      \<longleftrightarrow> (\<exists>g a c. navigator_gpu env = Some g \<and> requestAdapter g = Some a
            \<and> requestDevice_resolves env
            \<and> querySelector_canvas env = Some c \<and> getContext c = None))
   \<and> (snd (main env random) = Inl Rejected
      \<longleftrightarrow> (\<exists>g a. navigator_gpu env = Some g \<and> requestAdapter g = Some a
            \<and> \<not> requestDevice_resolves env))
   \<and> (snd (main env random) = Inl TypeError
      \<longleftrightarrow> (\<exists>g a. navigator_gpu env = Some g \<and> requestAdapter g = Some a
            \<and> requestDevice_resolves env \<and> querySelector_canvas env = None))
   \<and> ((\<exists>msg. snd (main env random) = Inl (Error msg))
      \<longleftrightarrow> navigator_gpu env = None
          \<or> (\<exists>g. navigator_gpu env = Some g \<and> requestAdapter g = None)
          \<or> (\<exists>g a c. navigator_gpu env = Some g \<and> requestAdapter g = Some a
                \<and> requestDevice_resolves env
                \<and> querySelector_canvas env = Some c \<and> getContext c = None))
   \<and> ((\<exists>x. snd (main env random) = Inl x)
      \<longleftrightarrow> navigator_gpu env = None
          \<or> (\<exists>g. navigator_gpu env = Some g \<and> requestAdapter g = None)
          \<or> \<not> requestDevice_resolves env
          \<or> querySelector_canvas env = None
          \<or> (\<exists>c. querySelector_canvas env = Some c \<and> getContext c = None))
   \<and> (snd (main env random) = Inl e
      \<longrightarrow> e \<in> {Error ''WebGPU not supported on this browser.'',
               Error ''No appropriate GPUAdapter found.'',
               Error ''Unable to obtain WebGPU context.'', Rejected, TypeError}
          \<and> Configure \<notin> set (fst (main env random)))
   \<and> distinct (fst (main env random))
   \<and> (navigator_gpu env = Some g \<and> requestAdapter g = Some a \<and> requestDevice_resolves env
       \<and> querySelector_canvas env = Some c \<and> getContext c = Some ctx
      \<longrightarrow> (let format = getPreferredCanvasFormat g;
               configured = ctx\<lparr>configuration := Some format\<rparr>;
               p = initialise env (requestDevice a) format random
           in main env random =
                ([QuerySelector, RequestAdapter, RequestDevice, GetContext,
                  GetPreferredCanvasFormat, Configure],
                 Inr (configured, p))
              \<and> snd (render_only_main env) =
                  Inr (render_only_initialise env (requestDevice a) format)
              \<and> next_id (device p) = 12 \<and> length (uploads (device p)) = 3
              \<and> submitted (device p) = [] \<and> length (bindGroups p) = 2 \<and> step p = 0
              \<and> updateGrid_checked configured (frames n p) = Inr (frames (Suc n) p)))
   \<and> fst (render_only_main env) = fst (main env random)
   \<and> (snd (render_only_main env) = Inl e \<longleftrightarrow> snd (main env random) = Inl e)"
proof -
  have gpu: "(snd (main env random) = Inl (Error ''WebGPU not supported on this browser.'')
      \<longleftrightarrow> navigator_gpu env = None)"
    by (auto simp: main_def bootstrap_cases split: option.splits)
  have adapter: "(snd (main env random) = Inl (Error ''No appropriate GPUAdapter found.'')
      \<longleftrightarrow> (\<exists>g. navigator_gpu env = Some g \<and> requestAdapter g = None))"
    by (auto simp: main_def bootstrap_cases split: option.splits)
  have surface: "(snd (main env random) = Inl (Error ''Unable to obtain WebGPU context.'')
      \<longleftrightarrow> (\<exists>g a c. navigator_gpu env = Some g \<and> requestAdapter g = Some a
            \<and> requestDevice_resolves env
            \<and> querySelector_canvas env = Some c \<and> getContext c = None))"
    by (auto simp: main_def bootstrap_cases split: option.splits)
  have rejected: "(snd (main env random) = Inl Rejected
      \<longleftrightarrow> (\<exists>g a. navigator_gpu env = Some g \<and> requestAdapter g = Some a
            \<and> \<not> requestDevice_resolves env))"
    by (auto simp: main_def bootstrap_cases split: option.splits)
  have no_canvas: "(snd (main env random) = Inl TypeError
      \<longleftrightarrow> (\<exists>g a. navigator_gpu env = Some g \<and> requestAdapter g = Some a
            \<and> requestDevice_resolves env \<and> querySelector_canvas env = None))"
    by (auto simp: main_def bootstrap_cases split: option.splits)
  have descriptive: "((\<exists>msg. snd (main env random) = Inl (Error msg))
      \<longleftrightarrow> navigator_gpu env = None
          \<or> (\<exists>g. navigator_gpu env = Some g \<and> requestAdapter g = None)
          \<or> (\<exists>g a c. navigator_gpu env = Some g \<and> requestAdapter g = Some a
                \<and> requestDevice_resolves env
                \<and> querySelector_canvas env = Some c \<and> getContext c = None))"
    by (auto simp: main_def bootstrap_cases split: option.splits)
  have any: "((\<exists>x. snd (main env random) = Inl x)
      \<longleftrightarrow> navigator_gpu env = None
          \<or> (\<exists>g. navigator_gpu env = Some g \<and> requestAdapter g = None)
          \<or> \<not> requestDevice_resolves env
          \<or> querySelector_canvas env = None
          \<or> (\<exists>c. querySelector_canvas env = Some c \<and> getContext c = None))"
    by (auto simp: main_def bootstrap_cases split: option.splits)
  have which: "(snd (main env random) = Inl e
      \<longrightarrow> e \<in> {Error ''WebGPU not supported on this browser.'',
               Error ''No appropriate GPUAdapter found.'',
               Error ''Unable to obtain WebGPU context.'', Rejected, TypeError}
          \<and> Configure \<notin> set (fst (main env random)))"
    by (auto simp: main_def bootstrap_cases split: option.splits)
  have once: "distinct (fst (main env random))"
    by (auto simp: main_def bootstrap_cases split: option.splits)
  have completes: "(navigator_gpu env = Some g \<and> requestAdapter g = Some a \<and> requestDevice_resolves env
       \<and> querySelector_canvas env = Some c \<and> getContext c = Some ctx
      \<longrightarrow> (let format = getPreferredCanvasFormat g;
               configured = ctx\<lparr>configuration := Some format\<rparr>;
               p = initialise env (requestDevice a) format random
           in main env random =
                ([QuerySelector, RequestAdapter, RequestDevice, GetContext,
                  GetPreferredCanvasFormat, Configure],
                 Inr (configured, p))
              \<and> snd (render_only_main env) =
                  Inr (render_only_initialise env (requestDevice a) format)
              \<and> next_id (device p) = 12 \<and> length (uploads (device p)) = 3
              \<and> submitted (device p) = [] \<and> length (bindGroups p) = 2 \<and> step p = 0
              \<and> updateGrid_checked configured (frames n p) = Inr (frames (Suc n) p)))"
    unfolding Let_def
    by (simp add: main_def render_only_main_def bootstrap_cases initialise_next_id
        initialise_uploads uploads_requestDevice submitted_initialise submitted_requestDevice
        initialise_two_groups initialise_step frames_never_throw Let_def
        del: frames.simps)
      (simp add: requestDevice_def)
  have same_calls: "fst (render_only_main env) = fst (main env random)"
    by (auto simp: main_def render_only_main_def bootstrap_cases split: option.splits)
  have same_abort: "(snd (render_only_main env) = Inl e \<longleftrightarrow> snd (main env random) = Inl e)"
    by (auto simp: main_def render_only_main_def bootstrap_cases split: option.splits)
  show ?thesis
    by (intro conjI gpu adapter surface rejected no_canvas descriptive any which once completes same_calls same_abort)
qed

text \<open>
  A browser without WebGPU, and one where every request succeeds: the example program
  starts, and its fourth frame does not throw.
\<close>

theorem start_up_aborts_exactly_witness:
  "snd (main (example_env\<lparr>navigator_gpu := None\<rparr>) example_random) =
     Inl (Error ''WebGPU not supported on this browser.'')
   \<and> fst (main (example_env\<lparr>navigator_gpu := None\<rparr>) example_random) = [QuerySelector]
   \<and> navigator_gpu example_env = Some example_gpu
   \<and> requestAdapter example_gpu = Some GPUAdapter
   \<and> requestDevice_resolves example_env
   \<and> querySelector_canvas example_env = Some example_canvas
   \<and> getContext example_canvas = Some \<lparr>configuration = None\<rparr>
   \<and> main example_env example_random =
       ([QuerySelector, RequestAdapter, RequestDevice, GetContext, GetPreferredCanvasFormat,
         Configure],
        Inr (\<lparr>configuration = Some bgra8unorm\<rparr>, example_program))
   \<and> updateGrid_checked \<lparr>configuration = Some bgra8unorm\<rparr> (frames 3 example_program) =
       Inr (frames (Suc 3) example_program)"
proof -
  have answers: "navigator_gpu example_env = Some example_gpu"
    "requestAdapter example_gpu = Some GPUAdapter"
    "requestDevice_resolves example_env"
    "querySelector_canvas example_env = Some example_canvas"
    "getContext example_canvas = Some \<lparr>configuration = None\<rparr>"
    "getPreferredCanvasFormat example_gpu = bgra8unorm"
    by (simp_all add: example_env_def example_gpu_def example_canvas_def)
  note none = start_up_aborts_exactly [of "example_env\<lparr>navigator_gpu := None\<rparr>" example_random]
  have no_gpu: "snd (main (example_env\<lparr>navigator_gpu := None\<rparr>) example_random) =
      Inl (Error ''WebGPU not supported on this browser.'')"
    using none by simp
  have calls: "fst (main (example_env\<lparr>navigator_gpu := None\<rparr>) example_random) = [QuerySelector]"
    by (simp add: main_def bootstrap_cases)
  note all = start_up_aborts_exactly [of example_env example_random _ example_gpu GPUAdapter
      example_canvas "\<lparr>configuration = None\<rparr>" 3, unfolded Let_def]
  from all answers have run: "main example_env example_random =
       ([QuerySelector, RequestAdapter, RequestDevice, GetContext, GetPreferredCanvasFormat,
         Configure],
        Inr (\<lparr>configuration = Some bgra8unorm\<rparr>, example_program))"
    by (simp add: example_program_def)
  from all answers have frame: "updateGrid_checked \<lparr>configuration = Some bgra8unorm\<rparr>
      (frames 3 example_program) = Inr (frames (Suc 3) example_program)"
    by (simp add: example_program_def del: frames.simps)
  show ?thesis
    by (intro conjI no_gpu calls answers(1-5) run frame)
qed

text \<open>
  Claim C8 as stated has an abort in the three cases only, and each time with a
  descriptive message. A browser that has WebGPU, returns an adapter and has a canvas
  that gives a context, but rejects the device request, ends the program with the
  reason of the rejection; and a page without a canvas element ends it with a
  \<^verbatim>\<open>TypeError\<close>, not with the message about the context.
\<close>

theorem start_up_other_aborts_counterexample:
  "navigator_gpu (example_env\<lparr>requestDevice_resolves := False\<rparr>) = Some example_gpu
   \<and> requestAdapter example_gpu = Some GPUAdapter
   \<and> querySelector_canvas (example_env\<lparr>requestDevice_resolves := False\<rparr>) = Some example_canvas
   \<and> getContext example_canvas = Some \<lparr>configuration = None\<rparr>
   \<and> snd (main (example_env\<lparr>requestDevice_resolves := False\<rparr>) example_random) = Inl Rejected
   \<and> navigator_gpu (example_env\<lparr>querySelector_canvas := None\<rparr>) = Some example_gpu
   \<and> snd (main (example_env\<lparr>querySelector_canvas := None\<rparr>) example_random) = Inl TypeError
   \<and> TypeError \<noteq> Error ''Unable to obtain WebGPU context.''"
  by (simp add: main_def bootstrap_cases example_env_def example_gpu_def example_canvas_def)

section \<open>The two bind groups\<close>

text \<open>
  Claim C10. The two bind groups made at start-up have the same layout object and the
  same uniform buffer at binding 0. The first has storage buffer 0 at binding 1 and
  storage buffer 1 at binding 2, the second has them exchanged, and the two storage
  buffers are different buffers. Apart from that exchange the groups differ in nothing
  but their identity and their label.
\<close>

theorem bind_groups_exchange_storage:
  "(let p = initialise env d f random;
        A = bindGroups p ! 0; B = bindGroups p ! 1;
        U = uniformBuffer p; S0 = cellStateStorage p ! 0; S1 = cellStateStorage p ! 1
    in bindGroups p = [A, B]
       \<and> bg_layout A = made_layout (bindGroupLayout p) \<and> bg_layout B = bg_layout A
       \<and> bg_entries A = [(0, U), (1, S0), (2, S1)]
       \<and> bg_entries B = [(0, U), (1, S1), (2, S0)]
       \<and> resource_at A 0 = Some U \<and> resource_at B 0 = Some U
       \<and> resource_at A 1 = Some S0 \<and> resource_at A 2 = Some S1
       \<and> resource_at B 1 = Some S1 \<and> resource_at B 2 = Some S0
       \<and> buffer_id S0 \<noteq> buffer_id S1
       \<and> buffer_id U \<noteq> buffer_id S0 \<and> buffer_id U \<noteq> buffer_id S1
       \<and> B = A\<lparr>bg_id := bg_id A + 1, bg_label := ''Cell renderer bind group B'',
                bg_entries := [(0, U), (1, S1), (2, S0)]\<rparr>)"
  by (simp add: Let_def initialise_bindGroups resource_at_def)
    (simp add: initialise_cellStateStorage initialise_uniformBuffer)

text \<open>The bindings of the two groups of the example program, by buffer label.\<close>

theorem bind_groups_exchange_storage_witness:
  "map (map (\<lambda>(i, b). (i, buffer_label b)) \<circ> bg_entries) (bindGroups example_program) =
     [[(0, ''Grid Uniforms''), (1, ''Cell State A''), (2, ''Cell State B'')],
      [(0, ''Grid Uniforms''), (1, ''Cell State B''), (2, ''Cell State A'')]]"
proof -
  note exchange = bind_groups_exchange_storage [of example_env "requestDevice GPUAdapter"
      bgra8unorm example_random, unfolded Let_def, folded example_program_def]
  let ?A = "bindGroups example_program ! 0" and ?B = "bindGroups example_program ! 1"
  from exchange have groups: "bindGroups example_program = [?A, ?B]"
    by blast
  from exchange have first: "bg_entries ?A =
      [(0, uniformBuffer example_program), (1, cellStateStorage example_program ! 0),
       (2, cellStateStorage example_program ! 1)]"
    by blast
  from exchange have second: "bg_entries ?B =
      [(0, uniformBuffer example_program), (1, cellStateStorage example_program ! 1),
       (2, cellStateStorage example_program ! 0)]"
    by blast
  have labels: "buffer_label (uniformBuffer example_program) = ''Grid Uniforms''"
    "buffer_label (cellStateStorage example_program ! 0) = ''Cell State A''"
    "buffer_label (cellStateStorage example_program ! 1) = ''Cell State B''"
    by (simp_all add: example_program_def initialise_cellStateStorage initialise_uniformBuffer)
  show ?thesis
    by (subst groups) (simp add: first second labels del: One_nat_def)
qed

section \<open>Draw calls\<close>

text \<open>
  Claim C4. Every draw call requests 6 vertices (the 12 vertex components divided by
  2) and one instance per cell: 128 * 128 = 16384 instances in every frame of the
  simulation, and 32 * 32 = 1024 in the render-only variant, whose single submission
  is one render pass, without a compute pass, with one bind group that binds nothing
  but the uniform buffer.
\<close>

theorem draw_six_vertices_per_cell:
  "draws (frame p) = [(6, GRID_SIZE * GRID_SIZE)]
   \<and> length vertices div 2 = 6 \<and> GRID_SIZE * GRID_SIZE = 16384
   \<and> (\<forall>cb \<in> set (submitted (device (frames n (initialise env (requestDevice a) f random)))).
         draws cb = [(6, 16384)])
   \<and> (let cbs = submitted (render_only_initialise env (requestDevice a) f)
       in length cbs = 1 \<and> length (cbs ! 0) = 1
          \<and> filter is_compute_pass (cbs ! 0) = []
          \<and> draws (cbs ! 0) = [(6, RENDER_ONLY_GRID_SIZE * RENDER_ONLY_GRID_SIZE)]
          \<and> RENDER_ONLY_GRID_SIZE * RENDER_ONLY_GRID_SIZE = 1024
          \<and> map bg_entries (render_groups (cbs ! 0)) =
              [[(0, \<lparr>buffer_id = 1, buffer_label = ''Grid Uniforms'', buffer_size = 8,
                     buffer_usage = {UNIFORM, COPY_DST}\<rparr>)]])"
proof -
  have six: "length vertices div 2 = 6"
    by (simp add: length_vertices)
  have cells: "GRID_SIZE * GRID_SIZE = 16384"
    by (simp add: GRID_SIZE_def)
  have one: "draws (frame q) = [(6, 16384)]" for q
    using six cells by (simp add: frame_groups)
  have all: "\<forall>cb \<in> set (submitted (device (frames n (initialise env (requestDevice a) f random)))).
      draws cb = [(6, 16384)]"
    by (auto simp: submitted_frames submitted_initialise submitted_requestDevice one)
  have ro: "submitted (render_only_initialise env (requestDevice a) f) =
      [[RenderPass (0, 0, 0.4, 1)
          [RSetPipeline
             \<lparr>rp_id = 3, rp_label = ''Cell pipeline'', rp_layout = auto_layout,
              rp_module = \<lparr>sm_id = 2, sm_label = ''Cell shader'',
                            sm_code = cellShaderCode env\<rparr>,
              rp_vertex_entry = ''vertexMain'', rp_array_stride = 8,
              rp_fragment_entry = ''fragmentMain'', rp_target = f\<rparr>,
           SetVertexBuffer 0
             \<lparr>buffer_id = 0, buffer_label = ''Cell vertices'', buffer_size = 48,
              buffer_usage = {VERTEX, COPY_DST}\<rparr>,
           RSetBindGroup 0
             \<lparr>bg_id = 4, bg_label = ''Cell renderer bind group'',
              bg_layout = pipeline_layout_of 3 0,
              bg_entries = [(0, \<lparr>buffer_id = 1, buffer_label = ''Grid Uniforms'',
                                 buffer_size = 8, buffer_usage = {UNIFORM, COPY_DST}\<rparr>)]\<rparr>,
           Draw 6 (RENDER_ONLY_GRID_SIZE * RENDER_ONLY_GRID_SIZE)]]]"
    by (simp add: submitted_def render_only_queue Let_def six) (simp add: requestDevice_def)
  have ro_cells: "RENDER_ONLY_GRID_SIZE * RENDER_ONLY_GRID_SIZE = 1024"
    by (simp add: RENDER_ONLY_GRID_SIZE_def)
  show ?thesis
    unfolding Let_def ro using six cells one all ro_cells
    by (simp add: draws_def render_groups_def)
qed

text \<open>The second of two frames of the example program, and the render-only variant.\<close>

theorem draw_six_vertices_per_cell_witness:
  "frame (frames 1 example_program)
     \<in> set (submitted (device (frames 2 example_program)))
   \<and> draws (frame (frames 1 example_program)) = [(6, 16384)]
   \<and> draws (submitted (render_only_initialise example_env (requestDevice GPUAdapter)
        bgra8unorm) ! 0) = [(6, 1024)]"
proof -
  have empty: "submitted (device example_program) = []"
    by (simp add: example_program_def submitted_initialise submitted_requestDevice)
  have "submitted (device (frames 2 example_program)) ! 1 = frame (frames 1 example_program)"
    using empty by (rule nth_submitted_frames) simp
  moreover have "length (submitted (device (frames 2 example_program))) = 2"
    by (simp add: submitted_frames empty del: frames.simps)
  ultimately have mem: "frame (frames 1 example_program)
      \<in> set (submitted (device (frames 2 example_program)))"
    by (metis nth_mem one_less_numeral_iff semiring_norm(76))
  show ?thesis
    using mem draw_six_vertices_per_cell [of "frames 1 example_program" 2 example_env GPUAdapter
        bgra8unorm example_random, unfolded Let_def, folded example_program_def]
    by (simp del: frames.simps)
qed

section \<open>What the host touches in a frame\<close>

text \<open>
  Claim C9, as the program has it. A call of the frame driver changes the step counter,
  by \<^verbatim>\<open>step++\<close>, which adds one to it while it is below \<open>2 ^ 53\<close>, and submits one
  command buffer; every other binding of the program is left as it was, and no buffer
  upload is made. After any number of frames the uploads on the queue
  are still the three made at start-up (cell state, vertices, grid uniform), and the
  program differs from the one after start-up in the step counter and the submitted
  command buffers only. The queue has no operation that reads a buffer back.
\<close>

theorem frame_driver_changes_only_step:
  "updateGrid p =
     p\<lparr>step := js_increment (step p),
       device := (device p)\<lparr>queue := queue (device p) @ [Submit [frame p]]\<rparr>\<rparr>
   \<and> uploads (device (updateGrid p)) = uploads (device p)
   \<and> (step p < MAX_EXACT \<longrightarrow> step (updateGrid p) = step p + 1)
   \<and> (let p0 = initialise env (requestDevice a) f random
       in frames n p0 =
            p0\<lparr>step := step (frames n p0),
               device := (device p0)\<lparr>queue :=
                 queue (device p0) @ map (\<lambda>k. Submit [frame (frames k p0)]) [0..<n]\<rparr>\<rparr>
          \<and> uploads (device (frames n p0)) =
              [(cellStateStorage p0 ! 0, Uint32Array (cellStateArray p0)),
               (vertexBuffer p0, Float32Array vertices),
               (uniformBuffer p0, Float32Array (uniformArray p0))])"
proof -
  let ?p0 = "initialise env (requestDevice a) f random"
  have one: "updateGrid p =
     p\<lparr>step := js_increment (step p),
       device := (device p)\<lparr>queue := queue (device p) @ [Submit [frame p]]\<rparr>\<rparr>"
    by (simp add: updateGrid_eq frame_eq)
  have no_upload: "uploads (device (updateGrid p)) = uploads (device p)"
    by (rule uploads_updateGrid)
  have incr: "step p < MAX_EXACT \<longrightarrow> step (updateGrid p) = step p + 1"
    by (simp add: step_updateGrid js_increment_def)
  have run: "frames n ?p0 =
      ?p0\<lparr>step := step (frames n ?p0),
          device := (device ?p0)\<lparr>queue :=
            queue (device ?p0) @ map (\<lambda>k. Submit [frame (frames k ?p0)]) [0..<n]\<rparr>\<rparr>"
    by (rule frames_eq)
  have three: "uploads (device (frames n ?p0)) =
      [(cellStateStorage ?p0 ! 0, Uint32Array (cellStateArray ?p0)),
       (vertexBuffer ?p0, Float32Array vertices),
       (uniformBuffer ?p0, Float32Array (uniformArray ?p0))]"
    by (simp add: uploads_frames initialise_uploads uploads_requestDevice Let_def)
  show ?thesis
    unfolding Let_def by (intro conjI one no_upload incr run three)
qed

text \<open>The first frame of the example program, and its uploads after seven frames.\<close>

theorem frame_driver_changes_only_step_witness:
  "step example_program < MAX_EXACT
   \<and> step (updateGrid example_program) = 1
   \<and> uploads (device (updateGrid example_program)) = uploads (device example_program)
   \<and> map (buffer_label \<circ> fst) (uploads (device (frames 7 example_program))) =
       [''Cell State A'', ''Cell vertices'', ''Grid Uniforms'']"
proof -
  note only_step = frame_driver_changes_only_step [of example_program example_env GPUAdapter
      bgra8unorm example_random 7, unfolded Let_def, folded example_program_def]
  have zero: "step example_program = 0"
    by (simp add: example_program_def initialise_step)
  then have small: "step example_program < MAX_EXACT"
    by (simp add: MAX_EXACT_def)
  with only_step have "step (updateGrid example_program) = step example_program + 1"
    by blast
  then have one: "step (updateGrid example_program) = 1"
    using zero by simp
  from only_step have same: "uploads (device (updateGrid example_program)) =
      uploads (device example_program)"
    by blast
  from only_step have "uploads (device (frames 7 example_program)) =
      [(cellStateStorage example_program ! 0, Uint32Array (cellStateArray example_program)),
       (vertexBuffer example_program, Float32Array vertices),
       (uniformBuffer example_program, Float32Array (uniformArray example_program))]"
    by blast
  then have three: "map (buffer_label \<circ> fst) (uploads (device (frames 7 example_program))) =
       [''Cell State A'', ''Cell vertices'', ''Grid Uniforms'']"
    by (simp add: example_program_def initialise_cellStateStorage initialise_vertexBuffer
        initialise_uniformBuffer)
  show ?thesis
    by (intro conjI small one same three)
qed

text \<open>
  Claim C9 as stated has every call increment the step counter. The call made when the
  counter has reached \<open>2 ^ 53\<close> (the state after \<open>2 ^ 53\<close> frames) leaves it as it is: a
  double cannot hold \<open>2 ^ 53 + 1\<close>.
\<close>

theorem full_counter_not_incremented_counterexample:
  "step (updateGrid (frames MAX_EXACT example_program)) = step (frames MAX_EXACT example_program)
   \<and> step (updateGrid (frames MAX_EXACT example_program)) \<noteq>
      step (frames MAX_EXACT example_program) + 1
   \<and> step (frames MAX_EXACT example_program) = MAX_EXACT"
  by (simp add: example_program_def step_updateGrid step_frames_initialise js_increment_def)

section \<open>The step counter\<close>

text \<open>
  Claim C7, as the program has it. The step counter is 0 after start-up. Each call of
  the frame driver adds one to it as long as it is below \<open>2 ^ 53\<close>, so after \<open>n\<close> calls,
  for \<open>n\<close> up to \<open>2 ^ 53\<close>, it equals \<open>n\<close>, and over those calls it increases strictly.
  It never decreases and is never reset. Its parity alone selects the bind group of the
  compute pass, and its parity after the increment that of the render pass.
\<close>

theorem step_counts_frames:
  "(let p0 = initialise env d f random
    in step p0 = 0
       \<and> (n \<le> MAX_EXACT \<longrightarrow> step (frames n p0) = n)
       \<and> (n < MAX_EXACT \<longrightarrow> step (frames (Suc n) p0) = step (frames n p0) + 1)
       \<and> (m < n \<and> n \<le> MAX_EXACT \<longrightarrow> step (frames m p0) < step (frames n p0))
       \<and> (m \<le> n \<longrightarrow> step (frames m p0) \<le> step (frames n p0))
       \<and> compute_groups (frame (frames n p0)) = [bindGroups p0 ! (step (frames n p0) mod 2)]
       \<and> render_groups (frame (frames n p0)) =
           [bindGroups p0 ! (step (frames (Suc n) p0) mod 2)])"
  unfolding Let_def
  by (auto simp: initialise_step step_frames_initialise frame_groups frames_static
      step_updateGrid js_increment_def)

theorem step_counts_frames_witness:
  "step example_program = 0 \<and> (5 :: nat) \<le> MAX_EXACT \<and> (2 :: nat) < 5
   \<and> step (frames 5 example_program) = 5 \<and> step (frames 2 example_program) = 2
   \<and> step (frames 2 example_program) < step (frames 5 example_program)
   \<and> step (frames (Suc 5) example_program) = 6"
proof -
  have "(5 :: nat) \<le> MAX_EXACT" and "(5 :: nat) < MAX_EXACT" and "(2 :: nat) \<le> MAX_EXACT"
    by (simp_all add: MAX_EXACT_def)
  then show ?thesis
    using step_counts_frames [of example_env "requestDevice GPUAdapter" bgra8unorm
        example_random 5 2]
      step_counts_frames [of example_env "requestDevice GPUAdapter" bgra8unorm
        example_random 2 0]
    by (simp add: Let_def example_program_def)
qed

text \<open>
  Claim C7 as stated says that the counter equals the number of calls after any number
  of calls and increases strictly for ever. The counter is a double: \<open>2 ^ 53 + 1\<close> is not
  one, and the increment of \<open>2 ^ 53\<close> gives \<open>2 ^ 53\<close> again. After \<open>2 ^ 53 + 1\<close> calls the
  counter is not \<open>2 ^ 53 + 1\<close>; it is what it was one call earlier.
\<close>

theorem step_stops_counting_counterexample:
  "step (frames (MAX_EXACT + 1) example_program) \<noteq> MAX_EXACT + 1
   \<and> step (frames (MAX_EXACT + 1) example_program) = step (frames MAX_EXACT example_program)"
  by (simp add: example_program_def step_frames_initialise del: frames.simps)

section \<open>Bind groups within a frame\<close>

text \<open>
  Claim C2, as the program has it. In a call of the frame driver entered with step
  counter \<open>s\<close> below \<open>2 ^ 53\<close>, the compute pass binds the bind group with index
  \<open>s mod 2\<close>, the counter then becomes \<open>s + 1\<close>, and the render pass binds the bind group
  with index \<open>(s + 1) mod 2\<close>; the two indices differ, and so do the two groups.
\<close>

theorem compute_and_render_groups_differ:
  assumes "s < MAX_EXACT"
  shows "(let p = frames s (initialise env d f random)
          in step p = s
             \<and> compute_groups (frame p) = [bindGroups p ! (s mod 2)]
             \<and> step (updateGrid p) = s + 1
             \<and> render_groups (frame p) = [bindGroups p ! ((s + 1) mod 2)]
             \<and> s mod 2 \<noteq> (s + 1) mod 2
             \<and> bg_id (bindGroups p ! (s mod 2)) \<noteq> bg_id (bindGroups p ! ((s + 1) mod 2))
             \<and> compute_groups (frame p) \<noteq> render_groups (frame p))"
proof -
  let ?p0 = "initialise env d f random"
  let ?p = "frames s ?p0"
  have entry: "step ?p = s"
    using assms by (simp add: step_frames_initialise)
  have after: "step (updateGrid ?p) = s + 1"
    using assms entry by (simp add: step_updateGrid js_increment_def)
  have compute: "compute_groups (frame ?p) = [bindGroups ?p ! (s mod 2)]"
    using entry by (simp add: frame_groups)
  have render: "render_groups (frame ?p) = [bindGroups ?p ! ((s + 1) mod 2)]"
    using after by (simp add: frame_groups step_updateGrid)
  have parity: "s mod 2 \<noteq> (s + 1) mod 2"
    by presburger
  have ids: "bg_id (bindGroups ?p ! (s mod 2)) \<noteq> bg_id (bindGroups ?p ! ((s + 1) mod 2))"
    using parity_cases [of s] initialise_groups_distinct [of env d f random]
    by (auto simp: frames_static)
  then have groups: "compute_groups (frame ?p) \<noteq> render_groups (frame ?p)"
    unfolding compute render by auto
  show ?thesis
    unfolding Let_def by (intro conjI entry compute after render parity ids groups)
qed

theorem compute_and_render_groups_differ_witness:
  "(3 :: nat) < MAX_EXACT
   \<and> step (frames 3 example_program) = 3
   \<and> compute_groups (frame (frames 3 example_program)) = [bindGroups (frames 3 example_program) ! 1]
   \<and> render_groups (frame (frames 3 example_program)) = [bindGroups (frames 3 example_program) ! 0]
   \<and> compute_groups (frame (frames 3 example_program)) \<noteq>
      render_groups (frame (frames 3 example_program))"
proof -
  have small: "(3 :: nat) < MAX_EXACT"
    by (simp add: MAX_EXACT_def)
  show ?thesis
    using small compute_and_render_groups_differ [OF small, of example_env
        "requestDevice GPUAdapter" bgra8unorm example_random]
    by (auto simp: Let_def example_program_def)
qed

text \<open>
  Claim C2 as stated speaks of every call. The call entered when the counter has reached
  \<open>2 ^ 53\<close> (the state after \<open>2 ^ 53\<close> frames) leaves the counter at \<open>2 ^ 53\<close>: both passes
  bind the group with index 0, where the claim has index \<open>(2 ^ 53 + 1) mod 2 = 1\<close> for the
  render pass.
\<close>

theorem same_group_twice_counterexample:
  "step (frames MAX_EXACT example_program) = MAX_EXACT
   \<and> step (updateGrid (frames MAX_EXACT example_program)) = MAX_EXACT
   \<and> compute_groups (frame (frames MAX_EXACT example_program)) = [bindGroups example_program ! 0]
   \<and> render_groups (frame (frames MAX_EXACT example_program)) = [bindGroups example_program ! 0]
   \<and> MAX_EXACT mod 2 = 0 \<and> (MAX_EXACT + 1) mod 2 = 1"
proof -
  have entry: "step (frames MAX_EXACT example_program) = MAX_EXACT"
    by (simp add: example_program_def step_frames_initialise)
  then have after: "step (updateGrid (frames MAX_EXACT example_program)) = MAX_EXACT"
    by (simp add: step_updateGrid js_increment_def)
  have odd: "(MAX_EXACT + 1) mod 2 = 1"
    by (simp add: MAX_EXACT_def)
  show ?thesis
    using entry after odd
    by (simp add: frame_groups frames_static MAX_EXACT_even js_increment_def)
qed

section \<open>Ping-pong of the storage buffers\<close>

text \<open>
  Claim C1, as the program has it. In every run, frame \<open>k\<close> with \<open>k\<close> below \<open>2 ^ 53\<close> reads
  storage buffer \<open>k mod 2\<close> at binding 1 and writes the other one at binding 2, so that
  for those \<open>k\<close> the buffer written in frame \<open>k\<close> is the buffer read in frame \<open>k + 1\<close> and
  the buffer read in frame \<open>k\<close> is the buffer written in frame \<open>k + 1\<close>. In every frame,
  without a bound, the buffer at binding 1 and the buffer at binding 2 are different
  buffers: no dispatch reads the buffer it writes.
\<close>

theorem ping_pong_buffers:
  "(let p0 = initialise env (requestDevice a) f random;
        cbs = submitted (device (frames n p0))
    in length cbs = n
       \<and> (k < n \<and> k < MAX_EXACT \<longrightarrow>
            compute_inputs (cbs ! k) = [Some (cellStateStorage p0 ! (k mod 2))]
            \<and> compute_outputs (cbs ! k) = [Some (cellStateStorage p0 ! ((k + 1) mod 2))])
       \<and> (Suc k < n \<and> k < MAX_EXACT \<longrightarrow>
            compute_outputs (cbs ! k) = compute_inputs (cbs ! Suc k)
            \<and> compute_inputs (cbs ! k) = compute_outputs (cbs ! Suc k))
       \<and> (k < n \<longrightarrow> set (compute_inputs (cbs ! k)) \<inter> set (compute_outputs (cbs ! k)) = {})
       \<and> buffer_id (cellStateStorage p0 ! 0) \<noteq> buffer_id (cellStateStorage p0 ! 1))"
proof -
  let ?p0 = "initialise env (requestDevice a) f random"
  let ?cbs = "submitted (device (frames n ?p0))"
  have empty: "submitted (device ?p0) = []"
    by (simp add: submitted_initialise submitted_requestDevice)
  have nth: "?cbs ! j = frame (frames j ?p0)" if "j < n" for j
    using empty that by (rule nth_submitted_frames)
  have len: "length ?cbs = n"
    by (simp add: submitted_frames empty)
  have distinct: "buffer_id (cellStateStorage ?p0 ! 0) \<noteq> buffer_id (cellStateStorage ?p0 ! 1)"
    by (rule initialise_storage_distinct)
  have roles: "compute_inputs (?cbs ! k) = [Some (cellStateStorage ?p0 ! (k mod 2))]
      \<and> compute_outputs (?cbs ! k) = [Some (cellStateStorage ?p0 ! ((k + 1) mod 2))]"
    if "k < n" "k < MAX_EXACT"
    using that by (simp add: nth compute_io_frame)
  have swap: "compute_outputs (?cbs ! k) = compute_inputs (?cbs ! Suc k)
      \<and> compute_inputs (?cbs ! k) = compute_outputs (?cbs ! Suc k)"
    if "Suc k < n" "k < MAX_EXACT"
  proof -
    have "min (Suc k) MAX_EXACT = k + 1" and "min k MAX_EXACT = k"
      using that by simp_all
    moreover have "(k + 1 + 1) mod 2 = k mod 2"
      by presburger
    ultimately show ?thesis
      using that by (simp add: nth compute_io_frame del: frames.simps)
  qed
  have apart: "set (compute_inputs (?cbs ! k)) \<inter> set (compute_outputs (?cbs ! k)) = {}"
    if "k < n"
    using that distinct parity_cases [of "min k MAX_EXACT"]
    by (auto simp: nth compute_io_frame)
  show ?thesis
    unfolding Let_def using len roles swap apart distinct by blast
qed

theorem ping_pong_buffers_witness:
  "(0 :: nat) < 2 \<and> (0 :: nat) < MAX_EXACT \<and> Suc 0 < 2
   \<and> length (submitted (device (frames 2 example_program))) = 2
   \<and> compute_inputs (submitted (device (frames 2 example_program)) ! 0) =
       [Some (cellStateStorage example_program ! 0)]
   \<and> compute_outputs (submitted (device (frames 2 example_program)) ! 0) =
       [Some (cellStateStorage example_program ! 1)]
   \<and> compute_inputs (submitted (device (frames 2 example_program)) ! 1) =
       [Some (cellStateStorage example_program ! 1)]
   \<and> compute_outputs (submitted (device (frames 2 example_program)) ! 1) =
       [Some (cellStateStorage example_program ! 0)]"
proof -
  have "(0 :: nat) < MAX_EXACT"
    by (simp add: MAX_EXACT_def)
  then show ?thesis
    using ping_pong_buffers [of example_env GPUAdapter bgra8unorm example_random 2 0]
    unfolding Let_def example_program_def
    by (auto simp del: frames.simps)
qed

text \<open>
  Claim C1 as stated speaks of every pair of consecutive frames. Frames \<open>2 ^ 53\<close> and
  \<open>2 ^ 53 + 1\<close> (counting from 0) are both entered with the counter at \<open>2 ^ 53\<close> and use
  the same bind group: frame \<open>2 ^ 53\<close> writes storage buffer 1, and frame \<open>2 ^ 53 + 1\<close>
  reads storage buffer 0.
\<close>

theorem ping_pong_stops_counterexample:
  "compute_outputs (submitted (device (frames (MAX_EXACT + 2) example_program)) ! MAX_EXACT)
     = [Some (cellStateStorage example_program ! 1)]
   \<and> compute_inputs (submitted (device (frames (MAX_EXACT + 2) example_program)) ! (MAX_EXACT + 1))
     = [Some (cellStateStorage example_program ! 0)]
   \<and> compute_outputs (submitted (device (frames (MAX_EXACT + 2) example_program)) ! MAX_EXACT)
     \<noteq> compute_inputs (submitted (device (frames (MAX_EXACT + 2) example_program)) ! (MAX_EXACT + 1))"
proof -
  have empty: "submitted (device example_program) = []"
    by (simp add: example_program_def submitted_initialise submitted_requestDevice)
  have a: "submitted (device (frames (MAX_EXACT + 2) example_program)) ! MAX_EXACT
      = frame (frames MAX_EXACT example_program)"
    using empty by (rule nth_submitted_frames) simp
  have b: "submitted (device (frames (MAX_EXACT + 2) example_program)) ! (MAX_EXACT + 1)
      = frame (frames (MAX_EXACT + 1) example_program)"
    using empty by (rule nth_submitted_frames) simp
  have odd: "(MAX_EXACT + 1) mod 2 = 1"
    by (simp add: MAX_EXACT_def)
  have out: "compute_outputs (frame (frames MAX_EXACT example_program))
      = [Some (cellStateStorage example_program ! 1)]"
    using odd by (simp add: example_program_def compute_io_frame)
  have inp: "compute_inputs (frame (frames (MAX_EXACT + 1) example_program))
      = [Some (cellStateStorage example_program ! 0)]"
    by (simp add: example_program_def compute_io_frame MAX_EXACT_even del: frames.simps)
  have "cellStateStorage example_program ! 1 \<noteq> cellStateStorage example_program ! 0"
    using initialise_storage_distinct [of example_env "requestDevice GPUAdapter" bgra8unorm
        example_random]
    by (auto simp: example_program_def)
  then show ?thesis
    unfolding a b out inp by simp
qed

end
